theory Spec2Isabelle
  imports Complex_Main
begin

section \<open>The arena of arena.go\<close>

subsection \<open>Constants\<close>

text \<open>
  The loop and match timing constants. In the source they are untyped constants that
  are compared with \<open>float64\<close> seconds; here they are reals.
\<close>

definition dsPacketPeriodMs :: real where "dsPacketPeriodMs = 250"
definition autoDurationSec :: real where "autoDurationSec = 10"
definition pauseDurationSec :: real where "pauseDurationSec = 1"
definition teleopDurationSec :: real where "teleopDurationSec = 140"
definition endgameTimeLeftSec :: real where "endgameTimeLeftSec = 30"

text \<open>
  The match states are the \<open>iota\<close> constants 0 to 6. \<open>MatchState\<close> is an \<open>int\<close>
  field, so it can hold any other integer as well; the model keeps that.
\<close>

definition PRE_MATCH :: int where "PRE_MATCH = 0"
definition START_MATCH :: int where "START_MATCH = 1"
definition AUTO_PERIOD :: int where "AUTO_PERIOD = 2"
definition PAUSE_PERIOD :: int where "PAUSE_PERIOD = 3"
definition TELEOP_PERIOD :: int where "TELEOP_PERIOD = 4"
definition ENDGAME_PERIOD :: int where "ENDGAME_PERIOD = 5"
definition POST_MATCH :: int where "POST_MATCH = 6"

subsection \<open>Data\<close>

text \<open>
  Modelled from the spec: the types \<open>Team\<close>, \<open>Match\<close> and \<open>DriverStationConnection\<close>
  are declared outside arena.go. The records below hold the fields that arena.go reads
  or writes: \<open>team.Id\<close>; \<open>match.Type\<close>, the six team numbers and \<open>match.Status\<close>;
  \<open>dsConn.TeamId\<close>, \<open>dsConn.Auto\<close>, \<open>dsConn.Enabled\<close> and
  \<open>dsConn.DriverStationStatus.RobotLinked\<close>.
\<close>

record Team =
  Id_team :: int

record Match =
  Type :: string
  Red1 :: int
  Red2 :: int
  Red3 :: int
  Blue1 :: int
  Blue2 :: int
  Blue3 :: int
  Status :: string

record DriverStationConnection =
  TeamId :: int
  Auto :: bool
  Enabled :: bool
  RobotLinked :: bool

text \<open>
  A \<open>*DriverStationConnection\<close> is a reference into a store of connection objects;
  \<open>nil\<close> is \<open>None\<close>. Two stations may hold the same reference. A \<open>*Team\<close> is only
  read, so the team is kept by value.
\<close>

type_synonym conn_ref = nat
type_synonym conn_store = "conn_ref \<Rightarrow> DriverStationConnection"

record AllianceStation =
  DsConn :: "conn_ref option"
  EmergencyStop :: bool
  Bypass :: bool
  team :: "Team option"

text \<open>
  \<open>AllianceStations\<close> maps a station name to its station (in the source through a
  pointer that \<open>Setup\<close> allocates, one per name and never \<open>nil\<close>). A \<open>time.Time\<close> is a
  number of nanoseconds; the zero \<open>Time\<close> is 0.
\<close>

record Arena =
  AllianceStations :: "string \<rightharpoonup> AllianceStation"
  MatchState :: int
  CanStartMatch :: bool
  currentMatch :: "Match option"
  matchStartTime :: int
  lastDsPacketTime :: int

text \<open>
  The errors of arena.go, one constructor for each \<open>fmt.Errorf\<close>, and \<open>External\<close> for an
  error that a collaborator returned (with its message).
\<close>

datatype error =
    InvalidStation string \<comment> \<open>Invalid alliance station '%s'.\<close>
  | InvalidTeam int \<comment> \<open>Invalid team number '%d'.\<close>
  | LoadInProgress \<comment> \<open>Cannot load match while there is a match still in progress or with results pending.\<close>
  | StartInProgress \<comment> \<open>Cannot start match while there is a match still in progress or with results pending.\<close>
  | EmergencyStopActive \<comment> \<open>Cannot start match while an emergency stop is active.\<close>
  | RobotNotReady \<comment> \<open>Cannot start match until all robots are connected or bypassed.\<close>
  | NotInProgress \<comment> \<open>Cannot abort match when it is not in progress.\<close>
  | ResetInProgress \<comment> \<open>Cannot reset match while it is in progress.\<close>
  | External string

subsection \<open>The world outside the arena\<close>

text \<open>
  Every call that leaves arena.go is logged, in order. An \<open>Update\<close> entry keeps the
  station whose loop iteration made the call and the connection object as it was when
  the call was made.
\<close>

datatype call =
    Call_GetTeamById int
  | Call_NewDriverStationConnection int string
  | Call_Close conn_ref
  | Call_Update string conn_ref DriverStationConnection

record world =
  conns :: conn_store
  calls :: "call list"

text \<open>
  The collaborators are parameters. Each returns what the Go function returns (a pair
  for a function with two results, \<open>None\<close> for \<open>nil\<close>); the methods of a connection
  may also change the store of connections.
\<close>

record collab =
  db_GetTeamById :: "int \<Rightarrow> Team option \<times> string option"
  NewDriverStationConnection ::
    "int \<Rightarrow> string \<Rightarrow> conn_store \<Rightarrow> (conn_ref option \<times> string option) \<times> conn_store"
  ds_Close :: "conn_ref \<Rightarrow> conn_store \<Rightarrow> string option \<times> conn_store"
  ds_Update :: "conn_ref \<Rightarrow> conn_store \<Rightarrow> string option \<times> conn_store"

subsection \<open>CheckCanStartMatch\<close>

text \<open>
  \<open>range arena.AllianceStations\<close> visits the stations in an order that Go leaves
  unspecified. The order is the parameter \<open>ord\<close>, a list of the keys of the map.
\<close>

fun CheckCanStartMatch_range ::
  "conn_store \<Rightarrow> (string \<rightharpoonup> AllianceStation) \<Rightarrow> string list \<Rightarrow> error option" where
  "CheckCanStartMatch_range h m [] = None"
| "CheckCanStartMatch_range h m (k # ks) =
     (case m k of
        None \<Rightarrow> CheckCanStartMatch_range h m ks
      | Some allianceStation \<Rightarrow>
          if EmergencyStop allianceStation then Some EmergencyStopActive
          else if \<not> Bypass allianceStation \<and>
                  (case DsConn allianceStation of
                     None \<Rightarrow> True
                   | Some r \<Rightarrow> \<not> RobotLinked (h r))
          then Some RobotNotReady
          else CheckCanStartMatch_range h m ks)"

definition CheckCanStartMatch :: "string list \<Rightarrow> conn_store \<Rightarrow> Arena \<Rightarrow> error option" where
  "CheckCanStartMatch ord h arena =
     (if MatchState arena \<noteq> PRE_MATCH then Some StartInProgress
      else CheckCanStartMatch_range h (AllianceStations arena) ord)"

subsection \<open>StartMatch, AbortMatch, ResetMatch\<close>

definition StartMatch :: "string list \<Rightarrow> conn_store \<Rightarrow> Arena \<Rightarrow> error option \<times> Arena" where
  "StartMatch ord h arena =
     (let err = CheckCanStartMatch ord h arena
      in (err, if err = None then arena\<lparr>MatchState := START_MATCH\<rparr> else arena))"

definition AbortMatch :: "Arena \<Rightarrow> error option \<times> Arena" where
  "AbortMatch arena =
     (if MatchState arena = PRE_MATCH \<or> MatchState arena = POST_MATCH
      then (Some NotInProgress, arena)
      else (None, arena\<lparr>MatchState := POST_MATCH\<rparr>))"

text \<open>
  \<open>arena.AllianceStations["R1"].Bypass = false\<close> dereferences the pointer found under
  the key; for a key that is not in the map the pointer is \<open>nil\<close> and the program
  panics. \<open>None\<close> is that panic.
\<close>

definition clearBypass :: "string \<Rightarrow> Arena \<Rightarrow> Arena option" where
  "clearBypass station arena =
     (case AllianceStations arena station of
        None \<Rightarrow> None
      | Some s \<Rightarrow>
          Some (arena\<lparr>AllianceStations := (AllianceStations arena)(station \<mapsto> s\<lparr>Bypass := False\<rparr>)\<rparr>))"

definition ResetMatch :: "Arena \<Rightarrow> (error option \<times> Arena) option" where
  "ResetMatch arena =
     (if MatchState arena \<noteq> POST_MATCH \<and> MatchState arena \<noteq> PRE_MATCH
      then Some (Some ResetInProgress, arena)
      else
        case Option.bind (Option.bind (Option.bind (Option.bind (Option.bind
               (clearBypass ''R1'' (arena\<lparr>MatchState := PRE_MATCH\<rparr>))
               (clearBypass ''R2'')) (clearBypass ''R3'')) (clearBypass ''B1''))
               (clearBypass ''B2'')) (clearBypass ''B3'') of
          None \<Rightarrow> None
        | Some arena' \<Rightarrow> Some (None, arena'))"

subsection \<open>AssignTeam\<close>

text \<open>The calls to the collaborators, each logged.\<close>

definition call_GetTeamById :: "collab \<Rightarrow> int \<Rightarrow> world \<Rightarrow> (Team option \<times> string option) \<times> world" where
  "call_GetTeamById col teamId w =
     (db_GetTeamById col teamId, w\<lparr>calls := calls w @ [Call_GetTeamById teamId]\<rparr>)"

definition call_NewDriverStationConnection ::
  "collab \<Rightarrow> int \<Rightarrow> string \<Rightarrow> world \<Rightarrow> (conn_ref option \<times> string option) \<times> world" where
  "call_NewDriverStationConnection col teamId station w =
     (let (res, h) = NewDriverStationConnection col teamId station (conns w)
      in (res, w\<lparr>conns := h, calls := calls w @ [Call_NewDriverStationConnection teamId station]\<rparr>))"

definition call_Close :: "collab \<Rightarrow> conn_ref \<Rightarrow> world \<Rightarrow> string option \<times> world" where
  "call_Close col r w =
     (let (err, h) = ds_Close col r (conns w)
      in (err, w\<lparr>conns := h, calls := calls w @ [Call_Close r]\<rparr>))"

definition call_Update :: "collab \<Rightarrow> string \<Rightarrow> conn_ref \<Rightarrow> world \<Rightarrow> string option \<times> world" where
  "call_Update col station r w =
     (let (err, h) = ds_Update col r (conns w)
      in (err, w\<lparr>conns := h, calls := calls w @ [Call_Update station r (conns w r)]\<rparr>))"

definition setStation :: "string \<Rightarrow> AllianceStation \<Rightarrow> Arena \<Rightarrow> Arena" where
  "setStation station s arena =
     arena\<lparr>AllianceStations := (AllianceStations arena)(station \<mapsto> s)\<rparr>"

text \<open>
  The second half of \<open>AssignTeam\<close>, from the test \<open>teamId == 0\<close> on. The station
  \<open>s\<close> is the one under the key \<open>station\<close>. The team is stored before
  \<open>NewDriverStationConnection\<close> is called, and the first result of that call is
  stored in \<open>DsConn\<close> before its error is looked at.
\<close>

definition AssignTeam_load ::
  "collab \<Rightarrow> int \<Rightarrow> string \<Rightarrow> AllianceStation \<Rightarrow> Arena \<times> world \<Rightarrow> error option \<times> Arena \<times> world" where
  "AssignTeam_load col teamId station s aw =
     (let (arena, w) = aw in
      if teamId = 0 then (None, arena, w)
      else
        case call_GetTeamById col teamId w of
          ((_, Some err), w1) \<Rightarrow> (Some (External err), arena, w1)
        | ((None, None), w1) \<Rightarrow> (Some (InvalidTeam teamId), arena, w1)
        | ((Some t, None), w1) \<Rightarrow>
            let s1 = s\<lparr>team := Some t\<rparr>;
                arena1 = setStation station s1 arena;
                ((dsConn, err), w2) = call_NewDriverStationConnection col (Id_team t) station w1;
                arena2 = setStation station (s1\<lparr>DsConn := dsConn\<rparr>) arena1
            in (map_option External err, arena2, w2))"

definition AssignTeam ::
  "collab \<Rightarrow> int \<Rightarrow> string \<Rightarrow> Arena \<times> world \<Rightarrow> error option \<times> Arena \<times> world" where
  "AssignTeam col teamId station aw =
     (let (arena, w) = aw in
      case AllianceStations arena station of
        None \<Rightarrow> (Some (InvalidStation station), arena, w)
      | Some s \<Rightarrow>
          (case DsConn s of
             None \<Rightarrow> AssignTeam_load col teamId station s (arena, w)
           | Some dsConn \<Rightarrow>
               if TeamId (conns w dsConn) = teamId then (None, arena, w)
               else
                 (case call_Close col dsConn w of
                    (Some err, w1) \<Rightarrow> (Some (External err), arena, w1)
                  | (None, w1) \<Rightarrow>
                      let s' = s\<lparr>team := None, DsConn := None\<rparr>
                      in AssignTeam_load col teamId station s' (setStation station s' arena, w1))))"

subsection \<open>LoadMatch, LoadTestMatch, Setup\<close>

text \<open>The six calls of \<open>LoadMatch\<close>: the first error ends the sequence.\<close>

fun AssignTeams ::
  "collab \<Rightarrow> (int \<times> string) list \<Rightarrow> Arena \<times> world \<Rightarrow> error option \<times> Arena \<times> world" where
  "AssignTeams col [] aw = (None, aw)"
| "AssignTeams col ((teamId, station) # rest) aw =
     (case AssignTeam col teamId station aw of
        (Some err, aw') \<Rightarrow> (Some err, aw')
      | (None, aw') \<Rightarrow> AssignTeams col rest aw')"

definition LoadMatch :: "collab \<Rightarrow> Match \<Rightarrow> Arena \<times> world \<Rightarrow> error option \<times> Arena \<times> world" where
  "LoadMatch col match aw =
     (let (arena, w) = aw in
      if MatchState arena \<noteq> PRE_MATCH then (Some LoadInProgress, arena, w)
      else
        AssignTeams col
          [(Red1 match, ''R1''), (Red2 match, ''R2''), (Red3 match, ''R3''),
           (Blue1 match, ''B1''), (Blue2 match, ''B2''), (Blue3 match, ''B3'')]
          (arena\<lparr>currentMatch := Some match\<rparr>, w))"

text \<open>\<open>&Match{Type: "test"}\<close>: every other field has its zero value.\<close>

definition test_Match :: Match where
  "test_Match =
     \<lparr>Type = ''test'', Red1 = 0, Red2 = 0, Red3 = 0, Blue1 = 0, Blue2 = 0, Blue3 = 0,
      Status = []\<rparr>"

definition LoadTestMatch :: "collab \<Rightarrow> Arena \<times> world \<Rightarrow> error option \<times> Arena \<times> world" where
  "LoadTestMatch col aw = LoadMatch col test_Match aw"

text \<open>\<open>new(AllianceStation)\<close>.\<close>

definition new_AllianceStation :: AllianceStation where
  "new_AllianceStation = \<lparr>DsConn = None, EmergencyStop = False, Bypass = False, team = None\<rparr>"

text \<open>\<open>Setup\<close> drops the error of \<open>LoadTestMatch\<close>.\<close>

definition Setup :: "collab \<Rightarrow> Arena \<times> world \<Rightarrow> Arena \<times> world" where
  "Setup col aw =
     (let (arena, w) = aw;
          arena1 = arena\<lparr>AllianceStations :=
                     [''R1'' \<mapsto> new_AllianceStation, ''R2'' \<mapsto> new_AllianceStation,
                      ''R3'' \<mapsto> new_AllianceStation, ''B1'' \<mapsto> new_AllianceStation,
                      ''B2'' \<mapsto> new_AllianceStation, ''B3'' \<mapsto> new_AllianceStation],
                     MatchState := PRE_MATCH\<rparr>
      in snd (LoadTestMatch col (arena1, w)))"

subsection \<open>Time\<close>

text \<open>
  \<open>time.Since(t)\<close> at the clock reading \<open>now\<close>: a \<open>Duration\<close>, that is a signed 64-bit
  number of nanoseconds, and the difference saturates at its ends. \<open>Seconds\<close> turns a
  duration into seconds; the source rounds the quotient to a \<open>float64\<close>, the model
  keeps it exact.
\<close>

definition Since :: "int \<Rightarrow> int \<Rightarrow> int" where
  "Since now t = max (- (2 ^ 63)) (min (2 ^ 63 - 1) (now - t))"

definition Seconds :: "int \<Rightarrow> real" where
  "Seconds d = real_of_int d / 1000000000"

definition MatchTimeSec :: "int \<Rightarrow> Arena \<Rightarrow> real" where
  "MatchTimeSec now arena =
     (if MatchState arena = PRE_MATCH \<or> MatchState arena = POST_MATCH then 0
      else Seconds (Since now (matchStartTime arena)))"

subsection \<open>sendDsPacket and Update\<close>

fun sendDsPacket_range ::
  "collab \<Rightarrow> bool \<Rightarrow> bool \<Rightarrow> (string \<rightharpoonup> AllianceStation) \<Rightarrow> string list \<Rightarrow> world \<Rightarrow> world" where
  "sendDsPacket_range col auto enabled m [] w = w"
| "sendDsPacket_range col auto enabled m (k # ks) w =
     (case m k of
        None \<Rightarrow> sendDsPacket_range col auto enabled m ks w
      | Some allianceStation \<Rightarrow>
          (case DsConn allianceStation of
             None \<Rightarrow> sendDsPacket_range col auto enabled m ks w
           | Some r \<Rightarrow>
               let w1 = w\<lparr>conns := (conns w)(r := (conns w r)\<lparr>Auto := auto\<rparr>)\<rparr>;
                   w2 = w1\<lparr>conns := (conns w1)
                          (r := (conns w1 r)\<lparr>Enabled :=
                             enabled \<and> \<not> EmergencyStop allianceStation \<and> \<not> Bypass allianceStation\<rparr>)\<rparr>;
                   (err, w3) = call_Update col k r w2
               in sendDsPacket_range col auto enabled m ks w3))"

text \<open>The \<open>Update\<close> calls in a log that the loop made for the station \<open>k\<close>, in order.\<close>

fun Update_calls :: "string \<Rightarrow> call list \<Rightarrow> (conn_ref \<times> DriverStationConnection) list" where
  "Update_calls k [] = []"
| "Update_calls k (Call_Update k' r c # cs) =
     (if k' = k then (r, c) # Update_calls k cs else Update_calls k cs)"
| "Update_calls k (_ # cs) = Update_calls k cs"

text \<open>\<open>now\<close> is the reading of \<open>time.Now()\<close> after the loop.\<close>

definition sendDsPacket ::
  "collab \<Rightarrow> string list \<Rightarrow> int \<Rightarrow> bool \<Rightarrow> bool \<Rightarrow> Arena \<times> world \<Rightarrow> Arena \<times> world" where
  "sendDsPacket col ord now auto enabled aw =
     (let (arena, w) = aw;
          w' = sendDsPacket_range col auto enabled (AllianceStations arena) ord w
      in (arena\<lparr>lastDsPacketTime := now\<rparr>, w'))"

text \<open>
  What one call of \<open>Update\<close> takes from outside: the orders of its two \<open>range\<close> loops
  and the readings of the clock, one for each place that reads it.
\<close>

record tick =
  range_check :: "string list" \<comment> \<open>the loop of \<open>CheckCanStartMatch\<close>\<close>
  range_send :: "string list" \<comment> \<open>the loop of \<open>sendDsPacket\<close>\<close>
  now_matchTime :: int \<comment> \<open>\<open>time.Since\<close> in \<open>MatchTimeSec\<close>\<close>
  now_start :: int \<comment> \<open>\<open>time.Now()\<close> in the case \<open>START_MATCH\<close>\<close>
  now_since :: int \<comment> \<open>\<open>time.Since(arena.lastDsPacketTime)\<close>\<close>
  now_sent :: int \<comment> \<open>\<open>time.Now()\<close> at the end of \<open>sendDsPacket\<close>\<close>

text \<open>
  The \<open>switch\<close> of \<open>Update\<close>: the arena after it and the values of \<open>auto\<close>,
  \<open>enabled\<close> and \<open>sendDsPacket\<close>. There is no case for \<open>POST_MATCH\<close> and no default.
\<close>

definition Update_switch :: "tick \<Rightarrow> real \<Rightarrow> Arena \<Rightarrow> Arena \<times> bool \<times> bool \<times> bool" where
  "Update_switch t matchTimeSec arena =
     (if MatchState arena = PRE_MATCH then (arena, True, False, False)
      else if MatchState arena = START_MATCH then
        (arena\<lparr>MatchState := AUTO_PERIOD, matchStartTime := now_start t\<rparr>, True, True, True)
      else if MatchState arena = AUTO_PERIOD then
        (if matchTimeSec \<ge> autoDurationSec
         then (arena\<lparr>MatchState := PAUSE_PERIOD\<rparr>, False, False, True)
         else (arena, True, True, False))
      else if MatchState arena = PAUSE_PERIOD then
        (if matchTimeSec \<ge> autoDurationSec + pauseDurationSec
         then (arena\<lparr>MatchState := TELEOP_PERIOD\<rparr>, False, True, True)
         else (arena, False, False, False))
      else if MatchState arena = TELEOP_PERIOD then
        (if matchTimeSec \<ge> autoDurationSec + pauseDurationSec + teleopDurationSec - endgameTimeLeftSec
         then (arena\<lparr>MatchState := ENDGAME_PERIOD\<rparr>, False, True, False)
         else (arena, False, True, False))
      else if MatchState arena = ENDGAME_PERIOD then
        (if matchTimeSec \<ge> autoDurationSec + pauseDurationSec + teleopDurationSec
         then (arena\<lparr>MatchState := POST_MATCH\<rparr>, False, False, True)
         else (arena, False, True, False))
      else (arena, False, False, False))"

definition Update :: "collab \<Rightarrow> tick \<Rightarrow> Arena \<times> world \<Rightarrow> Arena \<times> world" where
  "Update col t aw =
     (let (arena, w) = aw;
          arena1 = arena\<lparr>CanStartMatch := (CheckCanStartMatch (range_check t) (conns w) arena = None)\<rparr>;
          matchTimeSec = MatchTimeSec (now_matchTime t) arena1;
          (arena2, auto, enabled, send) = Update_switch t matchTimeSec arena1
      in if send \<or> Seconds (Since (now_since t) (lastDsPacketTime arena2)) * 1000 \<ge> dsPacketPeriodMs
         then sendDsPacket col (range_send t) (now_sent t) auto enabled (arena2, w)
         else (arena2, w))"

text \<open>
  \<open>Run\<close> calls \<open>Update\<close> for ever. \<open>Run_ticks\<close> is the start of that loop, one
  iteration for each element of the list, and gives the state after each iteration.
\<close>

fun Run_ticks :: "collab \<Rightarrow> tick list \<Rightarrow> Arena \<times> world \<Rightarrow> (Arena \<times> world) list" where
  "Run_ticks col [] aw = []"
| "Run_ticks col (t # ts) aw = (let aw' = Update col t aw in aw' # Run_ticks col ts aw')"

subsection \<open>The timetable of the specification\<close>

text \<open>
  The state that the transition table of the specification gives to a match that has
  run for \<open>t\<close> seconds: the thresholds 10, 11, 121 and 151, each reached with \<open>\<ge>\<close>.
\<close>

definition spec_period :: "real \<Rightarrow> int" where
  "spec_period t =
     (if t < 10 then AUTO_PERIOD
      else if t < 11 then PAUSE_PERIOD
      else if t < 121 then TELEOP_PERIOD
      else if t < 151 then ENDGAME_PERIOD
      else POST_MATCH)"

text \<open>
  One row of that table for each tick: the state after a tick, from the state before it
  and the elapsed time \<open>t\<close> read in it. \<open>START_MATCH\<close> is left at once; every other
  exit condition is a test \<open>t \<ge> threshold\<close> with no upper end, and a tick takes one
  row only. \<open>spec_run\<close> is the list of the states after successive ticks.
\<close>

definition spec_step :: "int \<Rightarrow> real \<Rightarrow> int" where
  "spec_step s t =
     (if s = START_MATCH then AUTO_PERIOD
      else if s = AUTO_PERIOD \<and> t \<ge> 10 then PAUSE_PERIOD
      else if s = PAUSE_PERIOD \<and> t \<ge> 11 then TELEOP_PERIOD
      else if s = TELEOP_PERIOD \<and> t \<ge> 121 then ENDGAME_PERIOD
      else if s = ENDGAME_PERIOD \<and> t \<ge> 151 then POST_MATCH
      else s)"

fun spec_run :: "int \<Rightarrow> real list \<Rightarrow> int list" where
  "spec_run s [] = []"
| "spec_run s (t # ts) = spec_step s t # spec_run (spec_step s t) ts"

text \<open>
  Elapsed times of successive ticks, after the time \<open>t0\<close>: time does not run backwards
  and no tick comes so late that a whole period has passed since the tick before.
\<close>

fun paced :: "real \<Rightarrow> real list \<Rightarrow> bool" where
  "paced t0 [] = True"
| "paced t0 (t # ts) = (t0 \<le> t \<and> spec_period t \<le> spec_period t0 + 1 \<and> paced t ts)"

subsection \<open>Example states\<close>

text \<open>The zero value of \<open>Arena\<close> (\<open>mainArena\<close> before \<open>Setup\<close>), and a world with no call made.\<close>

definition zero_Arena :: Arena where
  "zero_Arena =
     \<lparr>AllianceStations = Map.empty, MatchState = 0, CanStartMatch = False,
      currentMatch = None, matchStartTime = 0, lastDsPacketTime = 0\<rparr>"

definition zero_world :: world where
  "zero_world =
     \<lparr>conns = (\<lambda>r. \<lparr>TeamId = 0, Auto = False, Enabled = False, RobotLinked = False\<rparr>),
      calls = []\<rparr>"

text \<open>
  Collaborators for the examples. Every team number has a team; a new connection for
  team \<open>n\<close> is the object at reference \<open>n\<close>; \<open>Close\<close> and \<open>Update\<close> succeed and change
  nothing.
\<close>

definition example_collab :: collab where
  "example_collab =
     \<lparr>db_GetTeamById = (\<lambda>teamId. (Some \<lparr>Id_team = teamId\<rparr>, None)),
      NewDriverStationConnection = (\<lambda>teamId station h.
        ((Some (nat teamId), None),
         h(nat teamId := \<lparr>TeamId = teamId, Auto = False, Enabled = False, RobotLinked = False\<rparr>))),
      ds_Close = (\<lambda>r h. (None, h)),
      ds_Update = (\<lambda>r h. (None, h))\<rparr>"

text \<open>The same, but \<open>Close\<close> fails.\<close>

definition failing_Close_collab :: collab where
  "failing_Close_collab = example_collab\<lparr>ds_Close := (\<lambda>r h. (Some ''close failed'', h))\<rparr>"

text \<open>The same, but \<open>NewDriverStationConnection\<close> fails and returns \<open>nil\<close> with its error.\<close>

definition failing_New_collab :: collab where
  "failing_New_collab =
     example_collab\<lparr>NewDriverStationConnection :=
       (\<lambda>teamId station h. ((None, Some ''dial failed''), h))\<rparr>"

definition six_stations :: "string list" where
  "six_stations = [''R1'', ''R2'', ''R3'', ''B1'', ''B2'', ''B3'']"

text \<open>The arena after \<open>Setup\<close>, and the same with one field of one station changed.\<close>

definition setup_arena :: Arena where
  "setup_arena = fst (Setup example_collab (zero_Arena, zero_world))"

definition with_Bypass :: "string \<Rightarrow> bool \<Rightarrow> Arena \<Rightarrow> Arena" where
  "with_Bypass station b arena =
     (case AllianceStations arena station of
        None \<Rightarrow> arena
      | Some s \<Rightarrow> setStation station (s\<lparr>Bypass := b\<rparr>) arena)"

definition with_EmergencyStop :: "string \<Rightarrow> bool \<Rightarrow> Arena \<Rightarrow> Arena" where
  "with_EmergencyStop station b arena =
     (case AllianceStations arena station of
        None \<Rightarrow> arena
      | Some s \<Rightarrow> setStation station (s\<lparr>EmergencyStop := b\<rparr>) arena)"

text \<open>Every station bypassed: a match can start.\<close>

definition bypassed_arena :: Arena where
  "bypassed_arena = fold (\<lambda>k. with_Bypass k True) six_stations setup_arena"

text \<open>Team 254 assigned to R1 after \<open>Setup\<close>: the arena and the world.\<close>

definition bound_state :: "Arena \<times> world" where
  "bound_state = snd (AssignTeam example_collab 254 ''R1'' (setup_arena, zero_world))"

text \<open>A match with team 254 at R1 and no other team.\<close>

definition example_Match :: Match where
  "example_Match =
     \<lparr>Type = ''practice'', Red1 = 254, Red2 = 0, Red3 = 0, Blue1 = 0, Blue2 = 0, Blue3 = 0,
      Status = []\<rparr>"

text \<open>
  Collaborators that know no team 1114, and a match with team 254 at R1, team 1114 at
  R2 and team 118 at R3.
\<close>

definition unknown_1114_collab :: collab where
  "unknown_1114_collab =
     example_collab\<lparr>db_GetTeamById :=
       (\<lambda>teamId. if teamId = 1114 then (None, None) else (Some \<lparr>Id_team = teamId\<rparr>, None))\<rparr>"

definition unknown_team_Match :: Match where
  "unknown_team_Match =
     \<lparr>Type = ''practice'', Red1 = 254, Red2 = 1114, Red3 = 118, Blue1 = 0, Blue2 = 0,
      Blue3 = 0, Status = []\<rparr>"

text \<open>A tick whose clock readings are all \<open>n\<close> and whose loops go from R1 to B3.\<close>

definition tick_at :: "int \<Rightarrow> tick" where
  "tick_at n =
     \<lparr>range_check = six_stations, range_send = six_stations,
      now_matchTime = n, now_start = n, now_since = n, now_sent = n\<rparr>"

section \<open>Properties\<close>

subsection \<open>Shared facts\<close>

lemmas match_state_defs =
  PRE_MATCH_def START_MATCH_def AUTO_PERIOD_def PAUSE_PERIOD_def
  TELEOP_PERIOD_def ENDGAME_PERIOD_def POST_MATCH_def

lemma setup_arena_eq:
  "setup_arena =
     \<lparr>AllianceStations =
        [''R1'' \<mapsto> new_AllianceStation, ''R2'' \<mapsto> new_AllianceStation,
         ''R3'' \<mapsto> new_AllianceStation, ''B1'' \<mapsto> new_AllianceStation,
         ''B2'' \<mapsto> new_AllianceStation, ''B3'' \<mapsto> new_AllianceStation],
      MatchState = PRE_MATCH, CanStartMatch = False, currentMatch = Some test_Match,
      matchStartTime = 0, lastDsPacketTime = 0\<rparr>"
  by (simp add: setup_arena_def Setup_def LoadTestMatch_def LoadMatch_def AssignTeam_def
      AssignTeam_load_def test_Match_def zero_Arena_def new_AllianceStation_def)

lemma bypassed_arena_eq:
  "bypassed_arena =
     \<lparr>AllianceStations =
        [''R1'' \<mapsto> new_AllianceStation\<lparr>Bypass := True\<rparr>,
         ''R2'' \<mapsto> new_AllianceStation\<lparr>Bypass := True\<rparr>,
         ''R3'' \<mapsto> new_AllianceStation\<lparr>Bypass := True\<rparr>,
         ''B1'' \<mapsto> new_AllianceStation\<lparr>Bypass := True\<rparr>,
         ''B2'' \<mapsto> new_AllianceStation\<lparr>Bypass := True\<rparr>,
         ''B3'' \<mapsto> new_AllianceStation\<lparr>Bypass := True\<rparr>],
      MatchState = PRE_MATCH, CanStartMatch = False, currentMatch = Some test_Match,
      matchStartTime = 0, lastDsPacketTime = 0\<rparr>"
  by (simp add: bypassed_arena_def setup_arena_eq six_stations_def with_Bypass_def
      setStation_def fun_upd_twist)

lemma estop_R2_eq:
  "with_EmergencyStop ''R2'' True bypassed_arena =
     \<lparr>AllianceStations =
        [''R1'' \<mapsto> new_AllianceStation\<lparr>Bypass := True\<rparr>,
         ''R2'' \<mapsto> new_AllianceStation\<lparr>Bypass := True, EmergencyStop := True\<rparr>,
         ''R3'' \<mapsto> new_AllianceStation\<lparr>Bypass := True\<rparr>,
         ''B1'' \<mapsto> new_AllianceStation\<lparr>Bypass := True\<rparr>,
         ''B2'' \<mapsto> new_AllianceStation\<lparr>Bypass := True\<rparr>,
         ''B3'' \<mapsto> new_AllianceStation\<lparr>Bypass := True\<rparr>],
      MatchState = PRE_MATCH, CanStartMatch = False, currentMatch = Some test_Match,
      matchStartTime = 0, lastDsPacketTime = 0\<rparr>"
  by (simp add: bypassed_arena_eq with_EmergencyStop_def setStation_def fun_upd_twist)

lemma estop_R2_setup_eq:
  "with_EmergencyStop ''R2'' True setup_arena =
     \<lparr>AllianceStations =
        [''R1'' \<mapsto> new_AllianceStation,
         ''R2'' \<mapsto> new_AllianceStation\<lparr>EmergencyStop := True\<rparr>,
         ''R3'' \<mapsto> new_AllianceStation, ''B1'' \<mapsto> new_AllianceStation,
         ''B2'' \<mapsto> new_AllianceStation, ''B3'' \<mapsto> new_AllianceStation],
      MatchState = PRE_MATCH, CanStartMatch = False, currentMatch = Some test_Match,
      matchStartTime = 0, lastDsPacketTime = 0\<rparr>"
  by (simp add: setup_arena_eq with_EmergencyStop_def setStation_def fun_upd_twist)

lemma bound_state_eq:
  "bound_state =
     (\<lparr>AllianceStations =
        [''R1'' \<mapsto> \<lparr>DsConn = Some 254, EmergencyStop = False, Bypass = False,
                    team = Some \<lparr>Id_team = 254\<rparr>\<rparr>,
         ''R2'' \<mapsto> new_AllianceStation,
         ''R3'' \<mapsto> new_AllianceStation, ''B1'' \<mapsto> new_AllianceStation,
         ''B2'' \<mapsto> new_AllianceStation, ''B3'' \<mapsto> new_AllianceStation],
      MatchState = PRE_MATCH, CanStartMatch = False, currentMatch = Some test_Match,
      matchStartTime = 0, lastDsPacketTime = 0\<rparr>,
      \<lparr>conns = (conns zero_world)
         (254 := \<lparr>TeamId = 254, Auto = False, Enabled = False, RobotLinked = False\<rparr>),
       calls = [Call_GetTeamById 254, Call_NewDriverStationConnection 254 ''R1'']\<rparr>)"
  by (simp add: bound_state_def setup_arena_eq AssignTeam_def AssignTeam_load_def
      call_GetTeamById_def call_NewDriverStationConnection_def example_collab_def
      setStation_def new_AllianceStation_def zero_world_def fun_upd_twist)

lemma estop_R1_bound_eq:
  "with_EmergencyStop ''R1'' True (fst bound_state) =
     \<lparr>AllianceStations =
        [''R1'' \<mapsto> \<lparr>DsConn = Some 254, EmergencyStop = True, Bypass = False,
                    team = Some \<lparr>Id_team = 254\<rparr>\<rparr>,
         ''R2'' \<mapsto> new_AllianceStation,
         ''R3'' \<mapsto> new_AllianceStation, ''B1'' \<mapsto> new_AllianceStation,
         ''B2'' \<mapsto> new_AllianceStation, ''B3'' \<mapsto> new_AllianceStation],
      MatchState = PRE_MATCH, CanStartMatch = False, currentMatch = Some test_Match,
      matchStartTime = 0, lastDsPacketTime = 0\<rparr>"
  by (simp add: bound_state_eq with_EmergencyStop_def setStation_def fun_eq_iff)

lemma StartMatch_bypassed:
  "StartMatch six_stations (conns zero_world) bypassed_arena =
     (None, bypassed_arena\<lparr>MatchState := START_MATCH\<rparr>)"
  by (simp add: StartMatch_def CheckCanStartMatch_def bypassed_arena_eq six_stations_def
      new_AllianceStation_def)

text \<open>\<open>sendDsPacket\<close> writes neither \<open>MatchState\<close> nor \<open>matchStartTime\<close>.\<close>

lemma sendDsPacket_fields:
  "MatchState (fst (sendDsPacket col ord now auto enabled (arena, w))) = MatchState arena"
  "matchStartTime (fst (sendDsPacket col ord now auto enabled (arena, w))) = matchStartTime arena"
  by (simp_all add: sendDsPacket_def Let_def)

text \<open>What the loop of \<open>CheckCanStartMatch\<close> returns, for any order of the visit.\<close>

lemma CheckCanStartMatch_range_None:
  "CheckCanStartMatch_range h m ks = None \<longleftrightarrow>
     (\<forall>k \<in> set ks. \<forall>s. m k = Some s \<longrightarrow>
        \<not> EmergencyStop s \<and> (\<not> Bypass s \<longrightarrow> (\<exists>r. DsConn s = Some r \<and> RobotLinked (h r))))"
  by (induction ks) (auto split: option.splits)

lemma CheckCanStartMatch_range_cases:
  "CheckCanStartMatch_range h m ks = None \<or>
   CheckCanStartMatch_range h m ks = Some EmergencyStopActive \<or>
   CheckCanStartMatch_range h m ks = Some RobotNotReady"
  by (induction ks) (auto split: option.splits)

lemma CheckCanStartMatch_range_append:
  "CheckCanStartMatch_range h m (pre @ post) =
     (case CheckCanStartMatch_range h m pre of
        None \<Rightarrow> CheckCanStartMatch_range h m post
      | Some e \<Rightarrow> Some e)"
  by (induction pre) (auto split: option.splits)

lemma CheckCanStartMatch_range_no_RobotNotReady:
  "\<forall>k \<in> set ks. \<forall>s. m k = Some s \<longrightarrow>
      EmergencyStop s \<or> Bypass s \<or> (\<exists>r. DsConn s = Some r \<and> RobotLinked (h r))
   \<Longrightarrow> CheckCanStartMatch_range h m ks \<noteq> Some RobotNotReady"
  by (induction ks) (auto split: option.splits)

lemma CheckCanStartMatch_range_RobotNotReady:
  assumes "\<forall>k' \<in> set before. \<forall>s'. m k' = Some s' \<longrightarrow>
      \<not> EmergencyStop s' \<and> (Bypass s' \<or> (\<exists>r. DsConn s' = Some r \<and> RobotLinked (h r)))"
    and "m k1 = Some s1" and "\<not> EmergencyStop s1" and "\<not> Bypass s1"
    and "\<not> (\<exists>r. DsConn s1 = Some r \<and> RobotLinked (h r))"
  shows "CheckCanStartMatch_range h m (before @ k1 # after) = Some RobotNotReady"
proof -
  have "CheckCanStartMatch_range h m before = None"
    using assms(1) by (auto simp: CheckCanStartMatch_range_None)
  then show ?thesis
    using assms(2-5) by (auto simp: CheckCanStartMatch_range_append split: option.splits)
qed

subsection \<open>C1: when a match can start\<close>

text \<open>
  C1. \<open>CheckCanStartMatch\<close> returns no error if and only if \<open>MatchState\<close> is
  \<open>PRE_MATCH\<close>, no station has its emergency stop set, and every station that is not
  bypassed has a connection whose \<open>RobotLinked\<close> is true; otherwise it returns an error.
  This holds for every order in which the loop may visit the stations.
\<close>

theorem CheckCanStartMatch_ok_iff:
  assumes "set ord = dom (AllianceStations arena)"
  shows "CheckCanStartMatch ord h arena = None \<longleftrightarrow>
     MatchState arena = PRE_MATCH \<and>
     (\<forall>k s. AllianceStations arena k = Some s \<longrightarrow>
        \<not> EmergencyStop s \<and>
        (\<not> Bypass s \<longrightarrow> (\<exists>r. DsConn s = Some r \<and> RobotLinked (h r))))"
proof -
  have "k \<in> set ord" if "AllianceStations arena k = Some s" for k s
    using that assms by auto
  then show ?thesis
    by (auto simp: CheckCanStartMatch_def CheckCanStartMatch_range_None)
qed

text \<open>
  With all six stations bypassed the check passes; right after \<open>Setup\<close>, with nothing
  bypassed and no connection, it does not.
\<close>

theorem CheckCanStartMatch_ok_iff_witness:
  "set six_stations = dom (AllianceStations bypassed_arena) \<and>
   MatchState bypassed_arena = PRE_MATCH \<and>
   CheckCanStartMatch six_stations (conns zero_world) bypassed_arena = None \<and>
   set six_stations = dom (AllianceStations setup_arena) \<and>
   CheckCanStartMatch six_stations (conns zero_world) setup_arena = Some RobotNotReady"
proof -
  have d: "set six_stations = dom (AllianceStations bypassed_arena)"
    by (auto simp: bypassed_arena_eq six_stations_def)
  have ready: "\<forall>k s. AllianceStations bypassed_arena k = Some s \<longrightarrow>
        \<not> EmergencyStop s \<and>
        (\<not> Bypass s \<longrightarrow> (\<exists>r. DsConn s = Some r \<and> RobotLinked (conns zero_world r)))"
    by (auto simp: bypassed_arena_eq new_AllianceStation_def split: if_splits)
  have s: "MatchState bypassed_arena = PRE_MATCH"
    by (simp add: bypassed_arena_eq)
  have "CheckCanStartMatch six_stations (conns zero_world) bypassed_arena = None"
    using CheckCanStartMatch_ok_iff [OF d, of "conns zero_world"] ready s by blast
  moreover have "set six_stations = dom (AllianceStations setup_arena)"
    by (auto simp: setup_arena_eq six_stations_def)
  moreover have "CheckCanStartMatch six_stations (conns zero_world) setup_arena = Some RobotNotReady"
    by (simp add: CheckCanStartMatch_def setup_arena_eq six_stations_def new_AllianceStation_def)
  ultimately show ?thesis using d s by simp
qed

subsection \<open>C4: an emergency stop and the error of the check\<close>

text \<open>
  C4 as stated fails. After \<open>Setup\<close>, with the emergency stop of R2 set, nothing
  bypassed and no connection, a loop that visits R1 first returns \<open>RobotNotReady\<close>
  at R1 and never looks at R2.
\<close>

theorem EmergencyStop_priority_counterexample:
  "MatchState (with_EmergencyStop ''R2'' True setup_arena) = PRE_MATCH \<and>
   map_option EmergencyStop (AllianceStations (with_EmergencyStop ''R2'' True setup_arena) ''R2'')
     = Some True \<and>
   set six_stations = dom (AllianceStations (with_EmergencyStop ''R2'' True setup_arena)) \<and>
   CheckCanStartMatch six_stations (conns zero_world) (with_EmergencyStop ''R2'' True setup_arena)
     = Some RobotNotReady"
  by (auto simp: CheckCanStartMatch_def setup_arena_eq six_stations_def new_AllianceStation_def
      with_EmergencyStop_def setStation_def)

text \<open>
  C4, amended. When a station has its emergency stop set, \<open>CheckCanStartMatch\<close> in
  \<open>PRE_MATCH\<close> fails whatever the bypass flags and the connections are, with
  \<open>EmergencyStopActive\<close> or with \<open>RobotNotReady\<close>. The error is \<open>EmergencyStopActive\<close>
  when every station without emergency stop is bypassed or linked, and also when the
  loop meets a station with emergency stop before it meets any station without
  emergency stop that is neither bypassed nor linked. The error is \<open>RobotNotReady\<close>
  when the loop meets a station without emergency stop that is neither bypassed nor
  linked before it meets any station with emergency stop.
\<close>

theorem EmergencyStop_fails:
  assumes ord: "set ord = dom (AllianceStations arena)"
    and pre: "MatchState arena = PRE_MATCH"
    and k: "AllianceStations arena k = Some s" "EmergencyStop s"
  shows "(CheckCanStartMatch ord h arena = Some EmergencyStopActive \<or>
          CheckCanStartMatch ord h arena = Some RobotNotReady) \<and>
    ((\<forall>k' s'. AllianceStations arena k' = Some s' \<and> \<not> EmergencyStop s' \<longrightarrow>
         Bypass s' \<or> (\<exists>r. DsConn s' = Some r \<and> RobotLinked (h r)))
       \<longrightarrow> CheckCanStartMatch ord h arena = Some EmergencyStopActive) \<and>
    (\<forall>before k1 s1 after.
        ord = before @ k1 # after \<and> AllianceStations arena k1 = Some s1 \<and> EmergencyStop s1 \<and>
        (\<forall>k' \<in> set before. \<forall>s'. AllianceStations arena k' = Some s' \<and> \<not> EmergencyStop s' \<longrightarrow>
           Bypass s' \<or> (\<exists>r. DsConn s' = Some r \<and> RobotLinked (h r)))
       \<longrightarrow> CheckCanStartMatch ord h arena = Some EmergencyStopActive) \<and>
    (\<forall>before k1 s1 after.
        ord = before @ k1 # after \<and> AllianceStations arena k1 = Some s1 \<and>
        \<not> EmergencyStop s1 \<and> \<not> Bypass s1 \<and>
        \<not> (\<exists>r. DsConn s1 = Some r \<and> RobotLinked (h r)) \<and>
        (\<forall>k' \<in> set before. \<forall>s'. AllianceStations arena k' = Some s' \<longrightarrow>
           \<not> EmergencyStop s' \<and> (Bypass s' \<or> (\<exists>r. DsConn s' = Some r \<and> RobotLinked (h r))))
       \<longrightarrow> CheckCanStartMatch ord h arena = Some RobotNotReady)"
proof -
  let ?m = "AllianceStations arena"
  have res: "CheckCanStartMatch ord h arena = CheckCanStartMatch_range h ?m ord"
    using pre by (simp add: CheckCanStartMatch_def)
  have "k \<in> set ord" using k(1) ord by auto
  then have "CheckCanStartMatch_range h ?m ord \<noteq> None"
    using k by (auto simp: CheckCanStartMatch_range_None)
  then have fails: "CheckCanStartMatch ord h arena = Some EmergencyStopActive \<or>
          CheckCanStartMatch ord h arena = Some RobotNotReady"
    using CheckCanStartMatch_range_cases [of h ?m ord] res by auto
  have prefix: "CheckCanStartMatch ord h arena = Some EmergencyStopActive"
    if split: "ord = before @ k1 # after" and k1: "?m k1 = Some s1" "EmergencyStop s1"
      and ready: "\<forall>k' \<in> set before. \<forall>s'. ?m k' = Some s' \<and> \<not> EmergencyStop s' \<longrightarrow>
           Bypass s' \<or> (\<exists>r. DsConn s' = Some r \<and> RobotLinked (h r))"
    for before k1 s1 after
  proof -
    have "CheckCanStartMatch_range h ?m before \<noteq> Some RobotNotReady"
      by (rule CheckCanStartMatch_range_no_RobotNotReady) (use ready in blast)
    then have "CheckCanStartMatch_range h ?m before = None \<or>
        CheckCanStartMatch_range h ?m before = Some EmergencyStopActive"
      using CheckCanStartMatch_range_cases [of h ?m before] by auto
    moreover have "CheckCanStartMatch ord h arena =
        CheckCanStartMatch_range h ?m (before @ k1 # after)"
      using res split by simp
    ultimately show ?thesis
      using k1 by (auto simp: CheckCanStartMatch_range_append)
  qed
  have allready: "CheckCanStartMatch ord h arena = Some EmergencyStopActive"
    if "\<forall>k' s'. ?m k' = Some s' \<and> \<not> EmergencyStop s' \<longrightarrow>
         Bypass s' \<or> (\<exists>r. DsConn s' = Some r \<and> RobotLinked (h r))"
  proof -
    have "CheckCanStartMatch_range h ?m ord \<noteq> Some RobotNotReady"
      by (rule CheckCanStartMatch_range_no_RobotNotReady) (use that in blast)
    then show ?thesis using fails res by auto
  qed
  have unready: "CheckCanStartMatch ord h arena = Some RobotNotReady"
    if "ord = before @ k1 # after" and "?m k1 = Some s1"
      and "\<not> EmergencyStop s1" and "\<not> Bypass s1"
      and "\<not> (\<exists>r. DsConn s1 = Some r \<and> RobotLinked (h r))"
      and "\<forall>k' \<in> set before. \<forall>s'. ?m k' = Some s' \<longrightarrow>
           \<not> EmergencyStop s' \<and> (Bypass s' \<or> (\<exists>r. DsConn s' = Some r \<and> RobotLinked (h r)))"
    for before k1 s1 after
    using res that(1) CheckCanStartMatch_range_RobotNotReady [OF that(6,2,3,4,5), of after]
    by simp
  show ?thesis
    by (intro conjI allI impI) (use fails prefix allready unready in blast)+
qed

text \<open>
  All six stations bypassed and the emergency stop of R2 set: the check fails with
  \<open>EmergencyStopActive\<close>, the bypass of R2 notwithstanding. Nothing bypassed, no
  connection and the emergency stop of R2 set: \<open>EmergencyStopActive\<close> when the loop
  starts at R2, \<open>RobotNotReady\<close> when it starts at R1.
\<close>

theorem EmergencyStop_fails_witness:
  "set six_stations = dom (AllianceStations (with_EmergencyStop ''R2'' True bypassed_arena)) \<and>
   MatchState (with_EmergencyStop ''R2'' True bypassed_arena) = PRE_MATCH \<and>
   map_option EmergencyStop (AllianceStations (with_EmergencyStop ''R2'' True bypassed_arena) ''R2'')
     = Some True \<and>
   map_option Bypass (AllianceStations (with_EmergencyStop ''R2'' True bypassed_arena) ''R2'')
     = Some True \<and>
   CheckCanStartMatch six_stations (conns zero_world) (with_EmergencyStop ''R2'' True bypassed_arena)
     = Some EmergencyStopActive \<and>
   set six_stations = dom (AllianceStations (with_EmergencyStop ''R2'' True setup_arena)) \<and>
   set [''R2'', ''R1'', ''R3'', ''B1'', ''B2'', ''B3''] =
     dom (AllianceStations (with_EmergencyStop ''R2'' True setup_arena)) \<and>
   MatchState (with_EmergencyStop ''R2'' True setup_arena) = PRE_MATCH \<and>
   map_option EmergencyStop (AllianceStations (with_EmergencyStop ''R2'' True setup_arena) ''R2'')
     = Some True \<and>
   CheckCanStartMatch [''R2'', ''R1'', ''R3'', ''B1'', ''B2'', ''B3''] (conns zero_world)
     (with_EmergencyStop ''R2'' True setup_arena) = Some EmergencyStopActive \<and>
   CheckCanStartMatch six_stations (conns zero_world)
     (with_EmergencyStop ''R2'' True setup_arena) = Some RobotNotReady"
proof -
  let ?a = "with_EmergencyStop ''R2'' True bypassed_arena"
  let ?s = "new_AllianceStation\<lparr>Bypass := True, EmergencyStop := True\<rparr>"
  let ?h = "conns zero_world"
  have d: "set six_stations = dom (AllianceStations ?a)"
    by (auto simp: estop_R2_eq six_stations_def)
  have p: "MatchState ?a = PRE_MATCH"
    by (simp add: estop_R2_eq)
  have k: "AllianceStations ?a ''R2'' = Some ?s"
    by (simp add: estop_R2_eq)
  have e: "EmergencyStop ?s"
    by simp
  have ready: "\<forall>k' s'. AllianceStations ?a k' = Some s' \<and> \<not> EmergencyStop s' \<longrightarrow>
         Bypass s' \<or> (\<exists>r. DsConn s' = Some r \<and> RobotLinked (?h r))"
    by (auto simp: estop_R2_eq split: if_splits)
  have 1: "CheckCanStartMatch six_stations ?h ?a = Some EmergencyStopActive"
    using EmergencyStop_fails [OF d p k e, of ?h] ready by blast
  let ?b = "with_EmergencyStop ''R2'' True setup_arena"
  let ?t = "new_AllianceStation\<lparr>EmergencyStop := True\<rparr>"
  let ?o = "[''R2'', ''R1'', ''R3'', ''B1'', ''B2'', ''B3'']"
  have d6: "set six_stations = dom (AllianceStations ?b)"
    by (auto simp: estop_R2_setup_eq six_stations_def)
  have do: "set ?o = dom (AllianceStations ?b)"
    by (auto simp: estop_R2_setup_eq)
  have pb: "MatchState ?b = PRE_MATCH"
    by (simp add: estop_R2_setup_eq)
  have kb: "AllianceStations ?b ''R2'' = Some ?t"
    by (simp add: estop_R2_setup_eq)
  have eb: "EmergencyStop ?t"
    by simp
  have r1: "AllianceStations ?b ''R1'' = Some new_AllianceStation"
    by (simp add: estop_R2_setup_eq)
  have n1: "\<not> EmergencyStop new_AllianceStation" "\<not> Bypass new_AllianceStation"
    "\<not> (\<exists>r. DsConn new_AllianceStation = Some r \<and> RobotLinked (?h r))"
    by (simp_all add: new_AllianceStation_def)
  have 2: "CheckCanStartMatch ?o ?h ?b = Some EmergencyStopActive"
  proof -
    have "?o = [] @ ''R2'' # [''R1'', ''R3'', ''B1'', ''B2'', ''B3'']"
      by simp
    with EmergencyStop_fails [OF do pb kb eb, of ?h] kb eb show ?thesis
      by (metis empty_iff list.set(1))
  qed
  have 3: "CheckCanStartMatch six_stations ?h ?b = Some RobotNotReady"
  proof -
    have "six_stations = [] @ ''R1'' # [''R2'', ''R3'', ''B1'', ''B2'', ''B3'']"
      by (simp add: six_stations_def)
    with EmergencyStop_fails [OF d6 pb kb eb, of ?h] r1 n1 show ?thesis
      by (metis empty_iff list.set(1))
  qed
  from 1 2 3 d p k d6 do pb kb show ?thesis
    by simp
qed

subsection \<open>C7: ResetMatch\<close>

text \<open>
  C7. \<open>ResetMatch\<close> in a state other than \<open>POST_MATCH\<close> and \<open>PRE_MATCH\<close> fails with
  its error and changes nothing. In \<open>POST_MATCH\<close> or \<open>PRE_MATCH\<close>, in an arena that has
  the six stations, it returns no error, sets \<open>MatchState\<close> to \<open>PRE_MATCH\<close> and the
  bypass flag of each of the six stations to false, and leaves every station's
  emergency stop, team and connection as they were, as well as every other field of
  the arena.
\<close>

theorem ResetMatch_effect:
  "(MatchState arena \<noteq> POST_MATCH \<and> MatchState arena \<noteq> PRE_MATCH \<longrightarrow>
      ResetMatch arena = Some (Some ResetInProgress, arena)) \<and>
   ((MatchState arena = POST_MATCH \<or> MatchState arena = PRE_MATCH) \<and>
    set six_stations \<subseteq> dom (AllianceStations arena) \<longrightarrow>
      (\<exists>arena'. ResetMatch arena = Some (None, arena') \<and>
         MatchState arena' = PRE_MATCH \<and>
         (\<forall>k \<in> set six_stations. \<exists>s'. AllianceStations arena' k = Some s' \<and> \<not> Bypass s') \<and>
         (\<forall>k s. AllianceStations arena k = Some s \<longrightarrow>
            (\<exists>s'. AllianceStations arena' k = Some s' \<and>
               EmergencyStop s' = EmergencyStop s \<and> team s' = team s \<and> DsConn s' = DsConn s \<and>
               (k \<notin> set six_stations \<longrightarrow> Bypass s' = Bypass s))) \<and>
         dom (AllianceStations arena') = dom (AllianceStations arena) \<and>
         CanStartMatch arena' = CanStartMatch arena \<and>
         currentMatch arena' = currentMatch arena \<and>
         matchStartTime arena' = matchStartTime arena \<and>
         lastDsPacketTime arena' = lastDsPacketTime arena))"
proof (intro conjI impI)
  assume "MatchState arena \<noteq> POST_MATCH \<and> MatchState arena \<noteq> PRE_MATCH"
  then show "ResetMatch arena = Some (Some ResetInProgress, arena)"
    by (simp add: ResetMatch_def)
next
  assume a: "(MatchState arena = POST_MATCH \<or> MatchState arena = PRE_MATCH) \<and>
    set six_stations \<subseteq> dom (AllianceStations arena)"
  let ?m = "AllianceStations arena"
  from a obtain r1 r2 r3 b1 b2 b3 where
    st: "?m ''R1'' = Some r1" "?m ''R2'' = Some r2" "?m ''R3'' = Some r3"
        "?m ''B1'' = Some b1" "?m ''B2'' = Some b2" "?m ''B3'' = Some b3"
    by (auto simp: six_stations_def)
  define arena' where "arena' = arena\<lparr>MatchState := PRE_MATCH,
    AllianceStations := ?m(''R1'' \<mapsto> r1\<lparr>Bypass := False\<rparr>, ''R2'' \<mapsto> r2\<lparr>Bypass := False\<rparr>,
      ''R3'' \<mapsto> r3\<lparr>Bypass := False\<rparr>, ''B1'' \<mapsto> b1\<lparr>Bypass := False\<rparr>,
      ''B2'' \<mapsto> b2\<lparr>Bypass := False\<rparr>, ''B3'' \<mapsto> b3\<lparr>Bypass := False\<rparr>)\<rparr>"
  have "ResetMatch arena = Some (None, arena')"
    using a st by (auto simp: ResetMatch_def clearBypass_def arena'_def)
  moreover have "MatchState arena' = PRE_MATCH"
    by (simp add: arena'_def)
  moreover have "\<forall>k \<in> set six_stations. \<exists>s'. AllianceStations arena' k = Some s' \<and> \<not> Bypass s'"
    by (simp add: arena'_def six_stations_def)
  moreover have "\<forall>k s. ?m k = Some s \<longrightarrow>
            (\<exists>s'. AllianceStations arena' k = Some s' \<and>
               EmergencyStop s' = EmergencyStop s \<and> team s' = team s \<and> DsConn s' = DsConn s \<and>
               (k \<notin> set six_stations \<longrightarrow> Bypass s' = Bypass s))"
    using st by (auto simp: arena'_def six_stations_def)
  moreover have "dom (AllianceStations arena') = dom ?m"
    using st by (auto simp: arena'_def)
  ultimately show "\<exists>arena'. ResetMatch arena = Some (None, arena') \<and>
         MatchState arena' = PRE_MATCH \<and>
         (\<forall>k \<in> set six_stations. \<exists>s'. AllianceStations arena' k = Some s' \<and> \<not> Bypass s') \<and>
         (\<forall>k s. AllianceStations arena k = Some s \<longrightarrow>
            (\<exists>s'. AllianceStations arena' k = Some s' \<and>
               EmergencyStop s' = EmergencyStop s \<and> team s' = team s \<and> DsConn s' = DsConn s \<and>
               (k \<notin> set six_stations \<longrightarrow> Bypass s' = Bypass s))) \<and>
         dom (AllianceStations arena') = dom (AllianceStations arena) \<and>
         CanStartMatch arena' = CanStartMatch arena \<and>
         currentMatch arena' = currentMatch arena \<and>
         matchStartTime arena' = matchStartTime arena \<and>
         lastDsPacketTime arena' = lastDsPacketTime arena"
    by (intro exI [of _ arena']) (simp add: arena'_def)
qed

text \<open>
  After a match, with every station bypassed and the emergency stop of R2 set,
  \<open>ResetMatch\<close> gives the arena of \<open>Setup\<close> with the emergency stop of R2 still set.
  During \<open>TELEOP_PERIOD\<close> it fails.
\<close>

theorem ResetMatch_effect_witness:
  "MatchState ((with_EmergencyStop ''R2'' True bypassed_arena)\<lparr>MatchState := POST_MATCH\<rparr>)
     = POST_MATCH \<and>
   set six_stations \<subseteq>
     dom (AllianceStations ((with_EmergencyStop ''R2'' True bypassed_arena)\<lparr>MatchState := POST_MATCH\<rparr>)) \<and>
   ResetMatch ((with_EmergencyStop ''R2'' True bypassed_arena)\<lparr>MatchState := POST_MATCH\<rparr>) =
     Some (None, with_EmergencyStop ''R2'' True setup_arena) \<and>
   ResetMatch (bypassed_arena\<lparr>MatchState := TELEOP_PERIOD\<rparr>) =
     Some (Some ResetInProgress, bypassed_arena\<lparr>MatchState := TELEOP_PERIOD\<rparr>)"
proof -
  let ?a = "(with_EmergencyStop ''R2'' True bypassed_arena)\<lparr>MatchState := POST_MATCH\<rparr>"
  let ?b = "bypassed_arena\<lparr>MatchState := TELEOP_PERIOD\<rparr>"
  have p: "MatchState ?a = POST_MATCH"
    by simp
  have d: "set six_stations \<subseteq> dom (AllianceStations ?a)"
    by (auto simp: estop_R2_eq six_stations_def)
  have "\<exists>arena'. ResetMatch ?a = Some (None, arena')"
    using ResetMatch_effect [of ?a] p d by blast
  moreover have "ResetMatch ?a = Some (None, arena') \<Longrightarrow>
      arena' = with_EmergencyStop ''R2'' True setup_arena" for arena'
    by (auto simp: ResetMatch_def clearBypass_def estop_R2_eq estop_R2_setup_eq
        new_AllianceStation_def match_state_defs fun_upd_twist)
  ultimately have "ResetMatch ?a = Some (None, with_EmergencyStop ''R2'' True setup_arena)"
    by blast
  moreover have "MatchState ?b \<noteq> POST_MATCH \<and> MatchState ?b \<noteq> PRE_MATCH"
    by (simp add: match_state_defs)
  then have "ResetMatch ?b = Some (Some ResetInProgress, ?b)"
    using ResetMatch_effect [of ?b] by blast
  ultimately show ?thesis using p d by simp
qed

subsection \<open>C10: Update in PRE_MATCH and POST_MATCH\<close>

text \<open>
  C10. \<open>Update\<close> never changes \<open>MatchState\<close> when it is \<open>PRE_MATCH\<close> or
  \<open>POST_MATCH\<close>.
\<close>

theorem Update_keeps_idle_state:
  assumes "MatchState arena = PRE_MATCH \<or> MatchState arena = POST_MATCH"
  shows "MatchState (fst (Update col t (arena, w))) = MatchState arena"
  using assms
  by (auto simp: Update_def Update_switch_def Let_def sendDsPacket_fields match_state_defs)

theorem Update_keeps_idle_state_witness:
  "MatchState setup_arena = PRE_MATCH \<and>
   MatchState (fst (Update example_collab (tick_at 5000000000) (setup_arena, zero_world)))
     = PRE_MATCH \<and>
   MatchState (setup_arena\<lparr>MatchState := POST_MATCH\<rparr>) = POST_MATCH \<and>
   MatchState (fst (Update example_collab (tick_at 5000000000)
      (setup_arena\<lparr>MatchState := POST_MATCH\<rparr>, zero_world))) = POST_MATCH"
proof -
  have a: "MatchState setup_arena = PRE_MATCH"
    by (simp add: setup_arena_eq)
  have b: "MatchState (setup_arena\<lparr>MatchState := POST_MATCH\<rparr>) = POST_MATCH"
    by simp
  show ?thesis
    using Update_keeps_idle_state [of setup_arena example_collab "tick_at 5000000000" zero_world]
      Update_keeps_idle_state [of "setup_arena\<lparr>MatchState := POST_MATCH\<rparr>" example_collab
        "tick_at 5000000000" zero_world] a b
    by simp
qed

subsection \<open>C6: LoadMatch and the state of the match\<close>

text \<open>
  \<open>AssignTeam\<close> writes neither \<open>currentMatch\<close> nor \<open>MatchState\<close>, and the error of
  \<open>LoadMatch\<close> is not one of its errors.
\<close>

lemma AssignTeam_load_frame:
  assumes "AssignTeam_load col teamId station s (arena, w) = (err, arena', w')"
  shows "currentMatch arena' = currentMatch arena \<and> MatchState arena' = MatchState arena \<and>
    err \<noteq> Some LoadInProgress"
  using assms
  by (auto simp: AssignTeam_load_def call_GetTeamById_def call_NewDriverStationConnection_def
      setStation_def Let_def split: if_splits prod.splits option.splits)

lemma AssignTeam_frame:
  assumes "AssignTeam col teamId station (arena, w) = (err, arena', w')"
  shows "currentMatch arena' = currentMatch arena \<and> MatchState arena' = MatchState arena \<and>
    err \<noteq> Some LoadInProgress"
proof (cases "AllianceStations arena station")
  case None
  with assms show ?thesis by (auto simp: AssignTeam_def)
next
  case (Some s)
  show ?thesis
  proof (cases "DsConn s")
    case None
    with Some assms AssignTeam_load_frame [of col teamId station s arena w err arena' w']
    show ?thesis by (simp add: AssignTeam_def)
  next
    case (Some r)
    let ?s' = "s\<lparr>team := None, DsConn := None\<rparr>"
    from assms \<open>AllianceStations arena station = Some s\<close> Some
    consider "err = None" "arena' = arena"
      | e where "err = Some (External e)" "arena' = arena"
      | w1 where "AssignTeam_load col teamId station ?s' (setStation station ?s' arena, w1)
          = (err, arena', w')"
      by (auto simp: AssignTeam_def Let_def split: if_splits prod.splits option.splits)
    then show ?thesis
    proof cases
      case 3
      from AssignTeam_load_frame [OF 3] show ?thesis by (simp add: setStation_def)
    qed auto
  qed
qed

lemma AssignTeams_frame:
  "AssignTeams col xs (arena, w) = (err, arena', w') \<Longrightarrow>
   currentMatch arena' = currentMatch arena \<and> MatchState arena' = MatchState arena \<and>
    err \<noteq> Some LoadInProgress"
proof (induction xs arbitrary: arena w)
  case Nil
  then show ?case by simp
next
  case (Cons x xs)
  obtain teamId station where x: "x = (teamId, station)" by (cases x)
  obtain e1 a1 w1 where r: "AssignTeam col teamId station (arena, w) = (e1, a1, w1)"
    by (cases "AssignTeam col teamId station (arena, w)")
  note f = AssignTeam_frame [OF r]
  show ?case
  proof (cases e1)
    case None
    with Cons.prems x r have "AssignTeams col xs (a1, w1) = (err, arena', w')" by simp
    from Cons.IH [OF this] f show ?thesis by simp
  next
    case (Some e)
    with Cons.prems x r f show ?thesis by auto
  qed
qed

text \<open>
  C6 as stated fails: in \<open>POST_MATCH\<close>, \<open>LoadMatch\<close> does not proceed. It returns its
  error and leaves the arena as it was.
\<close>

theorem LoadMatch_POST_MATCH_counterexample:
  "MatchState (setup_arena\<lparr>MatchState := POST_MATCH\<rparr>) = POST_MATCH \<and>
   LoadMatch example_collab example_Match (setup_arena\<lparr>MatchState := POST_MATCH\<rparr>, zero_world) =
     (Some LoadInProgress, setup_arena\<lparr>MatchState := POST_MATCH\<rparr>, zero_world)"
  by (simp add: LoadMatch_def match_state_defs)

text \<open>
  Two loads after \<open>Setup\<close>. With team 254 at R1 and every collaborator succeeding, R1
  is left as \<open>AssignTeam(254, "R1")\<close> leaves it. With team 1114 at R2 unknown, the
  load returns the error of that assignment: R1 stays assigned and R3 is not reached.
\<close>

lemma LoadMatch_example:
  "LoadMatch example_collab example_Match (setup_arena, zero_world) =
     (None, (fst bound_state)\<lparr>currentMatch := Some example_Match\<rparr>, snd bound_state)"
  unfolding bound_state_eq
  by (simp add: LoadMatch_def setup_arena_eq example_Match_def AssignTeam_def
        AssignTeam_load_def call_GetTeamById_def call_NewDriverStationConnection_def
        example_collab_def setStation_def new_AllianceStation_def zero_world_def fun_eq_iff)

lemma LoadMatch_unknown_team:
  "fst (LoadMatch unknown_1114_collab unknown_team_Match (setup_arena, zero_world)) =
     Some (InvalidTeam 1114) \<and>
   map (AllianceStations
      (fst (snd (LoadMatch unknown_1114_collab unknown_team_Match (setup_arena, zero_world)))))
     [''R1'', ''R2'', ''R3''] =
     [Some \<lparr>DsConn = Some 254, EmergencyStop = False, Bypass = False,
            team = Some \<lparr>Id_team = 254\<rparr>\<rparr>,
      Some new_AllianceStation, Some new_AllianceStation] \<and>
   currentMatch
      (fst (snd (LoadMatch unknown_1114_collab unknown_team_Match (setup_arena, zero_world)))) =
     Some unknown_team_Match"
  by (simp add: LoadMatch_def setup_arena_eq unknown_team_Match_def AssignTeam_def
        AssignTeam_load_def call_GetTeamById_def call_NewDriverStationConnection_def
        example_collab_def unknown_1114_collab_def setStation_def new_AllianceStation_def)

text \<open>
  C6, amended. \<open>LoadMatch\<close> is permitted exactly when \<open>MatchState\<close> is \<open>PRE_MATCH\<close>.
  In every other state, \<open>POST_MATCH\<close> among them, it fails with its error and leaves
  the arena, the current match included, and the world unchanged. In \<open>PRE_MATCH\<close> it
  does not fail with that error: the match becomes the current match, \<open>MatchState\<close>
  stays \<open>PRE_MATCH\<close>, and \<open>AssignTeam\<close> is called for R1, R2, R3, B1, B2 and B3 in that
  order with the team numbers of the match, each call on the state that the call
  before it left, up to the first call that returns an error. \<open>LoadMatch\<close> returns
  that error, or no error when the six calls return none, with the state that the last
  call made left.
\<close>

theorem LoadMatch_only_in_PRE_MATCH:
  "(MatchState arena \<noteq> PRE_MATCH \<longrightarrow>
      LoadMatch col match (arena, w) = (Some LoadInProgress, arena, w)) \<and>
   (MatchState arena = PRE_MATCH \<longrightarrow>
      fst (LoadMatch col match (arena, w)) \<noteq> Some LoadInProgress \<and>
      currentMatch (fst (snd (LoadMatch col match (arena, w)))) = Some match \<and>
      MatchState (fst (snd (LoadMatch col match (arena, w)))) = PRE_MATCH \<and>
      LoadMatch col match (arena, w) =
        (case AssignTeam col (Red1 match) ''R1'' (arena\<lparr>currentMatch := Some match\<rparr>, w) of
           (Some err, aw1) \<Rightarrow> (Some err, aw1)
         | (None, aw1) \<Rightarrow>
        (case AssignTeam col (Red2 match) ''R2'' aw1 of
           (Some err, aw2) \<Rightarrow> (Some err, aw2)
         | (None, aw2) \<Rightarrow>
        (case AssignTeam col (Red3 match) ''R3'' aw2 of
           (Some err, aw3) \<Rightarrow> (Some err, aw3)
         | (None, aw3) \<Rightarrow>
        (case AssignTeam col (Blue1 match) ''B1'' aw3 of
           (Some err, aw4) \<Rightarrow> (Some err, aw4)
         | (None, aw4) \<Rightarrow>
        (case AssignTeam col (Blue2 match) ''B2'' aw4 of
           (Some err, aw5) \<Rightarrow> (Some err, aw5)
         | (None, aw5) \<Rightarrow>
        (case AssignTeam col (Blue3 match) ''B3'' aw5 of
           (Some err, aw6) \<Rightarrow> (Some err, aw6)
         | (None, aw6) \<Rightarrow> (None, aw6))))))))"
proof (intro conjI impI)
  assume "MatchState arena \<noteq> PRE_MATCH"
  then show "LoadMatch col match (arena, w) = (Some LoadInProgress, arena, w)"
    by (simp add: LoadMatch_def)
next
  assume p: "MatchState arena = PRE_MATCH"
  obtain err arena' w' where r: "LoadMatch col match (arena, w) = (err, arena', w')"
    by (cases "LoadMatch col match (arena, w)")
  with p have "AssignTeams col
          [(Red1 match, ''R1''), (Red2 match, ''R2''), (Red3 match, ''R3''),
           (Blue1 match, ''B1''), (Blue2 match, ''B2''), (Blue3 match, ''B3'')]
          (arena\<lparr>currentMatch := Some match\<rparr>, w) = (err, arena', w')"
    by (simp add: LoadMatch_def)
  from AssignTeams_frame [OF this] r p
  show "fst (LoadMatch col match (arena, w)) \<noteq> Some LoadInProgress"
    and "currentMatch (fst (snd (LoadMatch col match (arena, w)))) = Some match"
    and "MatchState (fst (snd (LoadMatch col match (arena, w)))) = PRE_MATCH"
    by simp_all
  from p show "LoadMatch col match (arena, w) =
        (case AssignTeam col (Red1 match) ''R1'' (arena\<lparr>currentMatch := Some match\<rparr>, w) of
           (Some err, aw1) \<Rightarrow> (Some err, aw1)
         | (None, aw1) \<Rightarrow>
        (case AssignTeam col (Red2 match) ''R2'' aw1 of
           (Some err, aw2) \<Rightarrow> (Some err, aw2)
         | (None, aw2) \<Rightarrow>
        (case AssignTeam col (Red3 match) ''R3'' aw2 of
           (Some err, aw3) \<Rightarrow> (Some err, aw3)
         | (None, aw3) \<Rightarrow>
        (case AssignTeam col (Blue1 match) ''B1'' aw3 of
           (Some err, aw4) \<Rightarrow> (Some err, aw4)
         | (None, aw4) \<Rightarrow>
        (case AssignTeam col (Blue2 match) ''B2'' aw4 of
           (Some err, aw5) \<Rightarrow> (Some err, aw5)
         | (None, aw5) \<Rightarrow>
        (case AssignTeam col (Blue3 match) ''B3'' aw5 of
           (Some err, aw6) \<Rightarrow> (Some err, aw6)
         | (None, aw6) \<Rightarrow> (None, aw6)))))))"
    by (simp add: LoadMatch_def split: prod.splits option.splits)
qed

text \<open>
  During \<open>ENDGAME_PERIOD\<close> the load is refused. After \<open>Setup\<close>, the two loads above.
\<close>

theorem LoadMatch_only_in_PRE_MATCH_witness:
  "MatchState (setup_arena\<lparr>MatchState := ENDGAME_PERIOD\<rparr>) \<noteq> PRE_MATCH \<and>
   LoadMatch example_collab example_Match (setup_arena\<lparr>MatchState := ENDGAME_PERIOD\<rparr>, zero_world) =
     (Some LoadInProgress, setup_arena\<lparr>MatchState := ENDGAME_PERIOD\<rparr>, zero_world) \<and>
   MatchState setup_arena = PRE_MATCH \<and>
   LoadMatch example_collab example_Match (setup_arena, zero_world) =
     (None, (fst bound_state)\<lparr>currentMatch := Some example_Match\<rparr>, snd bound_state) \<and>
   AllianceStations (fst bound_state) ''R1'' =
     Some \<lparr>DsConn = Some 254, EmergencyStop = False, Bypass = False,
           team = Some \<lparr>Id_team = 254\<rparr>\<rparr> \<and>
   fst (LoadMatch unknown_1114_collab unknown_team_Match (setup_arena, zero_world)) =
     Some (InvalidTeam 1114) \<and>
   map (AllianceStations
      (fst (snd (LoadMatch unknown_1114_collab unknown_team_Match (setup_arena, zero_world)))))
     [''R1'', ''R2'', ''R3''] =
     [Some \<lparr>DsConn = Some 254, EmergencyStop = False, Bypass = False,
            team = Some \<lparr>Id_team = 254\<rparr>\<rparr>,
      Some new_AllianceStation, Some new_AllianceStation] \<and>
   currentMatch
      (fst (snd (LoadMatch unknown_1114_collab unknown_team_Match (setup_arena, zero_world)))) =
     Some unknown_team_Match"
proof -
  let ?a = "setup_arena\<lparr>MatchState := ENDGAME_PERIOD\<rparr>"
  have n: "MatchState ?a \<noteq> PRE_MATCH"
    by (simp add: match_state_defs)
  have p: "MatchState setup_arena = PRE_MATCH"
    by (simp add: setup_arena_eq)
  have refused: "LoadMatch example_collab example_Match (?a, zero_world) =
      (Some LoadInProgress, ?a, zero_world)"
    by (rule LoadMatch_only_in_PRE_MATCH [THEN conjunct1, THEN mp, OF n])
  have cur: "currentMatch
      (fst (snd (LoadMatch unknown_1114_collab unknown_team_Match (setup_arena, zero_world)))) =
     Some unknown_team_Match"
    using LoadMatch_only_in_PRE_MATCH [of setup_arena unknown_1114_collab unknown_team_Match
        zero_world] p
    by blast
  have r1: "AllianceStations (fst bound_state) ''R1'' =
     Some \<lparr>DsConn = Some 254, EmergencyStop = False, Bypass = False,
           team = Some \<lparr>Id_team = 254\<rparr>\<rparr>"
    by (simp add: bound_state_eq)
  show ?thesis
    by (intro conjI n refused p LoadMatch_example r1 cur
        LoadMatch_unknown_team [THEN conjunct1]
        LoadMatch_unknown_team [THEN conjunct2, THEN conjunct1])
qed

subsection \<open>C9: AssignTeam when Close fails\<close>

text \<open>
  C9. When the station holds a connection for another team and \<open>Close\<close> on that
  connection returns an error, \<open>AssignTeam\<close> returns that error and the arena is as
  it was before the call: the station keeps its team and its connection. Outside the
  arena, \<open>Close\<close> has been called once, and nothing else.
\<close>

theorem AssignTeam_Close_error:
  assumes "AllianceStations arena station = Some s"
    and "DsConn s = Some r"
    and "TeamId (conns w r) \<noteq> teamId"
    and "ds_Close col r (conns w) = (Some e, h')"
  shows "AssignTeam col teamId station (arena, w) =
    (Some (External e), arena, w\<lparr>conns := h', calls := calls w @ [Call_Close r]\<rparr>)"
  using assms by (simp add: AssignTeam_def call_Close_def)

text \<open>R1 holds team 254, \<open>Close\<close> fails, and team 1114 is assigned to R1.\<close>

theorem AssignTeam_Close_error_witness:
  "AllianceStations (fst bound_state) ''R1'' =
     Some \<lparr>DsConn = Some 254, EmergencyStop = False, Bypass = False,
           team = Some \<lparr>Id_team = 254\<rparr>\<rparr> \<and>
   TeamId (conns (snd bound_state) 254) \<noteq> 1114 \<and>
   ds_Close failing_Close_collab 254 (conns (snd bound_state)) =
     (Some ''close failed'', conns (snd bound_state)) \<and>
   AssignTeam failing_Close_collab 1114 ''R1'' bound_state =
     (Some (External ''close failed''), fst bound_state,
      (snd bound_state)\<lparr>calls := calls (snd bound_state) @ [Call_Close 254]\<rparr>)"
proof -
  let ?s = "\<lparr>DsConn = Some 254, EmergencyStop = False, Bypass = False,
           team = Some \<lparr>Id_team = 254\<rparr>\<rparr>"
  have a: "AllianceStations (fst bound_state) ''R1'' = Some ?s"
    by (simp add: bound_state_eq)
  have b: "DsConn ?s = Some 254"
    by simp
  have c: "TeamId (conns (snd bound_state) 254) \<noteq> 1114"
    by (simp add: bound_state_eq)
  have d: "ds_Close failing_Close_collab 254 (conns (snd bound_state)) =
     (Some ''close failed'', conns (snd bound_state))"
    by (simp add: failing_Close_collab_def)
  from AssignTeam_Close_error [OF a b c d] a c d show ?thesis
    by simp
qed

subsection \<open>C5: AssignTeam when the connection cannot be made\<close>

text \<open>
  When the team exists and \<open>NewDriverStationConnection\<close> returns an error, the station
  is left with the team and with whatever first result came with the error.
\<close>

lemma AssignTeam_New_error:
  assumes "AllianceStations arena station = Some s" and "DsConn s = None"
    and "teamId \<noteq> 0"
    and "db_GetTeamById col teamId = (Some t, None)"
    and "NewDriverStationConnection col (Id_team t) station (conns w) = ((d, Some e), h')"
  shows "fst (AssignTeam col teamId station (arena, w)) = Some (External e) \<and>
    AllianceStations (fst (snd (AssignTeam col teamId station (arena, w)))) station =
      Some (s\<lparr>team := Some t, DsConn := d\<rparr>)"
  using assms
  by (simp add: AssignTeam_def AssignTeam_load_def call_GetTeamById_def
      call_NewDriverStationConnection_def setStation_def)

text \<open>
  C5 does not hold of the code. After \<open>Setup\<close>, team 254 exists and
  \<open>NewDriverStationConnection\<close> fails: \<open>AssignTeam(254, "R1")\<close> returns the error, and
  R1 is left with team 254 and no connection. The team was stored before the call.
\<close>

theorem AssignTeam_half_bound:
  "fst (AssignTeam failing_New_collab 254 ''R1'' (setup_arena, zero_world)) =
     Some (External ''dial failed'') \<and>
   AllianceStations (fst (snd (AssignTeam failing_New_collab 254 ''R1'' (setup_arena, zero_world))))
     ''R1'' =
     Some \<lparr>DsConn = None, EmergencyStop = False, Bypass = False,
           team = Some \<lparr>Id_team = 254\<rparr>\<rparr>"
  by (simp add: setup_arena_eq AssignTeam_def AssignTeam_load_def
      call_GetTeamById_def call_NewDriverStationConnection_def example_collab_def
      failing_New_collab_def setStation_def new_AllianceStation_def)

subsection \<open>C8: AssignTeam with team number 0\<close>

text \<open>
  Two cases in which \<open>AssignTeam\<close> returns at once and changes nothing: the station
  holds a connection for the team asked for (team number 0 included), and team number
  0 is asked for a station without a connection (a team that such a station has is
  kept).
\<close>

lemma AssignTeam_same_team:
  assumes "AllianceStations arena station = Some s" and "DsConn s = Some r"
    and "TeamId (conns w r) = teamId"
  shows "AssignTeam col teamId station (arena, w) = (None, arena, w)"
  using assms by (simp add: AssignTeam_def)

lemma AssignTeam_zero_no_connection:
  assumes "AllianceStations arena station = Some s" and "DsConn s = None"
  shows "AssignTeam col 0 station (arena, w) = (None, arena, w)"
  using assms by (simp add: AssignTeam_def AssignTeam_load_def)

text \<open>
  C8 as stated fails: R1 holds team 254 and \<open>Close\<close> fails. \<open>AssignTeam(0, "R1")\<close>
  returns the error and R1 still holds its team and its connection.
\<close>

theorem AssignTeam_zero_counterexample:
  "fst (AssignTeam failing_Close_collab 0 ''R1'' bound_state) =
     Some (External ''close failed'') \<and>
   AllianceStations (fst (snd (AssignTeam failing_Close_collab 0 ''R1'' bound_state))) ''R1'' =
     Some \<lparr>DsConn = Some 254, EmergencyStop = False, Bypass = False,
           team = Some \<lparr>Id_team = 254\<rparr>\<rparr>"
  by (simp add: bound_state_eq AssignTeam_def call_Close_def failing_Close_collab_def)

text \<open>
  C8, amended. Take a station of the arena that is empty (no connection and no team),
  or that holds a connection for a team other than 0 whose \<open>Close\<close> succeeds. Then
  \<open>AssignTeam\<close> with team number 0 returns no error and leaves the station with no
  team and no connection, everything else in the arena being as before; the
  connection, if there was one, is closed once and no other call is made. A second
  \<open>AssignTeam\<close> with team number 0 returns no error and changes nothing, in the arena
  or outside.
\<close>

theorem AssignTeam_zero:
  assumes st: "AllianceStations arena station = Some s"
    and ok: "case DsConn s of
               None \<Rightarrow> team s = None
             | Some r \<Rightarrow> TeamId (conns w r) \<noteq> 0 \<and> fst (ds_Close col r (conns w)) = None"
  shows "\<exists>arena' w'.
    AssignTeam col 0 station (arena, w) = (None, arena', w') \<and>
    arena' = setStation station (s\<lparr>team := None, DsConn := None\<rparr>) arena \<and>
    calls w' = calls w @ (case DsConn s of None \<Rightarrow> [] | Some r \<Rightarrow> [Call_Close r]) \<and>
    AssignTeam col 0 station (arena', w') = (None, arena', w')"
proof (cases "DsConn s")
  case None
  with ok have "s\<lparr>team := None, DsConn := None\<rparr> = s"
    by simp
  then have same: "setStation station (s\<lparr>team := None, DsConn := None\<rparr>) arena = arena"
    using st by (simp add: setStation_def map_upd_triv)
  have "AssignTeam col 0 station (arena, w) = (None, arena, w)"
    using st None by (simp add: AssignTeam_def AssignTeam_load_def)
  with same None show ?thesis by simp
next
  case (Some r)
  obtain h' where cl: "ds_Close col r (conns w) = (None, h')"
    using ok Some by (cases "ds_Close col r (conns w)") auto
  let ?arena' = "setStation station (s\<lparr>team := None, DsConn := None\<rparr>) arena"
  let ?w' = "w\<lparr>conns := h', calls := calls w @ [Call_Close r]\<rparr>"
  have first: "AssignTeam col 0 station (arena, w) = (None, ?arena', ?w')"
    using st Some ok cl by (simp add: AssignTeam_def AssignTeam_load_def call_Close_def)
  have again: "AssignTeam col 0 station (?arena', ?w') = (None, ?arena', ?w')"
    by (simp add: AssignTeam_def AssignTeam_load_def setStation_def)
  from first again Some show ?thesis by simp
qed

text \<open>R1 holds team 254 and \<open>Close\<close> succeeds: the arena is again the one of \<open>Setup\<close>.\<close>

theorem AssignTeam_zero_witness:
  "AllianceStations (fst bound_state) ''R1'' =
     Some \<lparr>DsConn = Some 254, EmergencyStop = False, Bypass = False,
           team = Some \<lparr>Id_team = 254\<rparr>\<rparr> \<and>
   TeamId (conns (snd bound_state) 254) \<noteq> 0 \<and>
   fst (ds_Close example_collab 254 (conns (snd bound_state))) = None \<and>
   AssignTeam example_collab 0 ''R1'' bound_state =
     (None, setup_arena, (snd bound_state)\<lparr>calls := calls (snd bound_state) @ [Call_Close 254]\<rparr>) \<and>
   AssignTeam example_collab 0 ''R1''
     (setup_arena, (snd bound_state)\<lparr>calls := calls (snd bound_state) @ [Call_Close 254]\<rparr>) =
     (None, setup_arena, (snd bound_state)\<lparr>calls := calls (snd bound_state) @ [Call_Close 254]\<rparr>)"
proof -
  let ?s = "\<lparr>DsConn = Some 254, EmergencyStop = False, Bypass = False,
           team = Some \<lparr>Id_team = 254\<rparr>\<rparr>"
  let ?w' = "(snd bound_state)\<lparr>calls := calls (snd bound_state) @ [Call_Close 254]\<rparr>"
  have a: "AllianceStations (fst bound_state) ''R1'' = Some ?s"
    by (simp add: bound_state_eq)
  have c: "TeamId (conns (snd bound_state) 254) \<noteq> 0"
    by (simp add: bound_state_eq)
  have d: "fst (ds_Close example_collab 254 (conns (snd bound_state))) = None"
    by (simp add: example_collab_def)
  have ok: "case DsConn ?s of
               None \<Rightarrow> team ?s = None
             | Some r \<Rightarrow> TeamId (conns (snd bound_state) r) \<noteq> 0 \<and>
                 fst (ds_Close example_collab r (conns (snd bound_state))) = None"
    using c d by simp
  have e: "setStation ''R1'' (?s\<lparr>team := None, DsConn := None\<rparr>) (fst bound_state) = setup_arena"
    by (simp add: bound_state_eq setup_arena_eq setStation_def new_AllianceStation_def
        fun_eq_iff)
  obtain arena' w' where r:
    "AssignTeam example_collab 0 ''R1'' (fst bound_state, snd bound_state) = (None, arena', w')"
    "arena' = setStation ''R1'' (?s\<lparr>team := None, DsConn := None\<rparr>) (fst bound_state)"
    "AssignTeam example_collab 0 ''R1'' (arena', w') = (None, arena', w')"
    using AssignTeam_zero [OF a ok] by blast
  have w: "w' = ?w'"
    using r(1) by (simp add: bound_state_eq AssignTeam_def AssignTeam_load_def call_Close_def
        example_collab_def)
  from r e w a c d show ?thesis by simp
qed

subsection \<open>C2: what sendDsPacket tells a stopped or bypassed station\<close>

text \<open>
  The log that the loop of \<open>sendDsPacket\<close> adds: no \<open>Update\<close> for a station it does
  not visit and, when it visits no station twice, one \<open>Update\<close> for every station that
  has a connection, made with the flags that the loop has just written.
\<close>

lemma Update_calls_append:
  "Update_calls k (xs @ ys) = Update_calls k xs @ Update_calls k ys"
  by (induction k xs rule: Update_calls.induct) auto

lemma sendDsPacket_range_calls:
  "\<exists>tr. calls (sendDsPacket_range col auto enabled m ks w) = calls w @ tr \<and>
     (\<forall>k. k \<notin> set ks \<longrightarrow> Update_calls k tr = []) \<and>
     (distinct ks \<longrightarrow>
        (\<forall>k s r. k \<in> set ks \<and> m k = Some s \<and> DsConn s = Some r \<longrightarrow>
           (\<exists>c. Update_calls k tr = [(r, c)] \<and> Auto c = auto \<and>
              Enabled c = (enabled \<and> \<not> EmergencyStop s \<and> \<not> Bypass s))))"
proof (induction ks arbitrary: w)
  case Nil
  show ?case by simp
next
  case (Cons k0 ks)
  show ?case
  proof (cases "\<exists>s r. m k0 = Some s \<and> DsConn s = Some r")
    case False
    then have same: "sendDsPacket_range col auto enabled m (k0 # ks) w =
        sendDsPacket_range col auto enabled m ks w"
      by (auto split: option.splits)
    from Cons.IH [of w] obtain tr where tr:
      "calls (sendDsPacket_range col auto enabled m ks w) = calls w @ tr"
      "\<forall>k. k \<notin> set ks \<longrightarrow> Update_calls k tr = []"
      "distinct ks \<longrightarrow>
        (\<forall>k s r. k \<in> set ks \<and> m k = Some s \<and> DsConn s = Some r \<longrightarrow>
           (\<exists>c. Update_calls k tr = [(r, c)] \<and> Auto c = auto \<and>
              Enabled c = (enabled \<and> \<not> EmergencyStop s \<and> \<not> Bypass s)))"
      by blast
    show ?thesis
      unfolding same using tr False by (intro exI [of _ tr]) auto
  next
    case True
    then obtain s0 r0 where s0: "m k0 = Some s0" "DsConn s0 = Some r0"
      by blast
    define c0 where "c0 = (conns w r0)\<lparr>Auto := auto,
      Enabled := enabled \<and> \<not> EmergencyStop s0 \<and> \<not> Bypass s0\<rparr>"
    define w2 where "w2 = w\<lparr>conns := (conns w)(r0 := c0)\<rparr>"
    define w3 where "w3 = snd (call_Update col k0 r0 w2)"
    have step: "sendDsPacket_range col auto enabled m (k0 # ks) w =
        sendDsPacket_range col auto enabled m ks w3"
      using s0 by (simp add: w3_def w2_def c0_def Let_def split: prod.splits)
    have log: "calls w3 = calls w @ [Call_Update k0 r0 c0]"
      by (simp add: w3_def w2_def call_Update_def split: prod.splits)
    from Cons.IH [of w3] obtain tr where tr:
      "calls (sendDsPacket_range col auto enabled m ks w3) = calls w3 @ tr"
      "\<forall>k. k \<notin> set ks \<longrightarrow> Update_calls k tr = []"
      "distinct ks \<longrightarrow>
        (\<forall>k s r. k \<in> set ks \<and> m k = Some s \<and> DsConn s = Some r \<longrightarrow>
           (\<exists>c. Update_calls k tr = [(r, c)] \<and> Auto c = auto \<and>
              Enabled c = (enabled \<and> \<not> EmergencyStop s \<and> \<not> Bypass s)))"
      by blast
    let ?tr = "Call_Update k0 r0 c0 # tr"
    have 1: "calls (sendDsPacket_range col auto enabled m (k0 # ks) w) = calls w @ ?tr"
      unfolding step using tr(1) log by simp
    have 2: "\<forall>k. k \<notin> set (k0 # ks) \<longrightarrow> Update_calls k ?tr = []"
      using tr(2) by simp
    have 3: "\<exists>c. Update_calls k ?tr = [(r, c)] \<and> Auto c = auto \<and>
              Enabled c = (enabled \<and> \<not> EmergencyStop s \<and> \<not> Bypass s)"
      if d: "distinct (k0 # ks)" and k: "k \<in> set (k0 # ks)" "m k = Some s" "DsConn s = Some r"
      for k s r
    proof (cases "k = k0")
      case True
      with d have "Update_calls k tr = []" using tr(2) by simp
      with True k s0 show ?thesis by (simp add: c0_def)
    next
      case False
      with k d tr(3) show ?thesis by simp
    qed
    show ?thesis
      using 1 2 3 by (intro exI [of _ ?tr]) blast
  qed
qed

text \<open>
  C2. In a dispatch of \<open>sendDsPacket\<close>, take a station that has a connection and whose
  emergency stop or bypass flag is set. The dispatch calls \<open>Update\<close> for that station
  once, on its connection, and when the call is made the connection's \<open>Enabled\<close> is
  false (and its \<open>Auto\<close> is the flag passed in), whatever \<open>enabled\<close> was passed in,
  true included.
\<close>

theorem sendDsPacket_disables:
  assumes "distinct ord" and "set ord = dom (AllianceStations arena)"
    and "AllianceStations arena k = Some s" and "DsConn s = Some r"
    and "EmergencyStop s \<or> Bypass s"
  shows "\<exists>tr c.
    calls (snd (sendDsPacket col ord now auto enabled (arena, w))) = calls w @ tr \<and>
    Update_calls k tr = [(r, c)] \<and> \<not> Enabled c \<and> Auto c = auto"
proof -
  let ?m = "AllianceStations arena"
  have res: "snd (sendDsPacket col ord now auto enabled (arena, w)) =
      sendDsPacket_range col auto enabled ?m ord w"
    by (simp add: sendDsPacket_def Let_def)
  have k: "k \<in> set ord"
    using assms(2,3) by auto
  from sendDsPacket_range_calls [of col auto enabled ?m ord w] obtain tr where tr:
    "calls (sendDsPacket_range col auto enabled ?m ord w) = calls w @ tr"
    "distinct ord \<longrightarrow>
        (\<forall>k s r. k \<in> set ord \<and> ?m k = Some s \<and> DsConn s = Some r \<longrightarrow>
           (\<exists>c. Update_calls k tr = [(r, c)] \<and> Auto c = auto \<and>
              Enabled c = (enabled \<and> \<not> EmergencyStop s \<and> \<not> Bypass s)))"
    by blast
  from tr(2) assms(1,3,4) k obtain c where
    "Update_calls k tr = [(r, c)]" "Auto c = auto"
    "Enabled c = (enabled \<and> \<not> EmergencyStop s \<and> \<not> Bypass s)"
    by blast
  with tr(1) assms(5) show ?thesis
    unfolding res by blast
qed

text \<open>
  R1 holds team 254 and has its emergency stop set; \<open>sendDsPacket(false, true)\<close> calls
  \<open>Update\<close> once, with \<open>Enabled\<close> false.
\<close>

theorem sendDsPacket_disables_witness:
  "distinct six_stations \<and>
   set six_stations = dom (AllianceStations (with_EmergencyStop ''R1'' True (fst bound_state))) \<and>
   AllianceStations (with_EmergencyStop ''R1'' True (fst bound_state)) ''R1'' =
     Some \<lparr>DsConn = Some 254, EmergencyStop = True, Bypass = False,
           team = Some \<lparr>Id_team = 254\<rparr>\<rparr> \<and>
   (\<exists>tr c. calls (snd (sendDsPacket example_collab six_stations 7 False True
        (with_EmergencyStop ''R1'' True (fst bound_state), snd bound_state))) =
      calls (snd bound_state) @ tr \<and>
      Update_calls ''R1'' tr = [(254, c)] \<and> \<not> Enabled c \<and> Auto c = False) \<and>
   calls (snd (sendDsPacket example_collab six_stations 7 False True
      (with_EmergencyStop ''R1'' True (fst bound_state), snd bound_state))) =
     calls (snd bound_state) @
     [Call_Update ''R1'' 254 \<lparr>TeamId = 254, Auto = False, Enabled = False, RobotLinked = False\<rparr>]"
proof -
  let ?a = "with_EmergencyStop ''R1'' True (fst bound_state)"
  let ?s = "\<lparr>DsConn = Some 254, EmergencyStop = True, Bypass = False,
           team = Some \<lparr>Id_team = 254\<rparr>\<rparr>"
  let ?w' = "snd (sendDsPacket example_collab six_stations 7 False True (?a, snd bound_state))"
  have i: "distinct six_stations"
    by (simp add: six_stations_def)
  have d: "set six_stations = dom (AllianceStations ?a)"
    by (auto simp: estop_R1_bound_eq six_stations_def)
  have k: "AllianceStations ?a ''R1'' = Some ?s"
    by (simp add: estop_R1_bound_eq)
  have r: "DsConn ?s = Some 254" and e: "EmergencyStop ?s \<or> Bypass ?s"
    by simp_all
  have ex: "\<exists>tr c. calls ?w' = calls (snd bound_state) @ tr \<and>
      Update_calls ''R1'' tr = [(254, c)] \<and> \<not> Enabled c \<and> Auto c = False"
    by (rule sendDsPacket_disables [OF i d k r e])
  have "calls ?w' = calls (snd bound_state) @
     [Call_Update ''R1'' 254 \<lparr>TeamId = 254, Auto = False, Enabled = False, RobotLinked = False\<rparr>]"
    unfolding estop_R1_bound_eq
    by (simp add: sendDsPacket_def bound_state_eq six_stations_def
        call_Update_def example_collab_def new_AllianceStation_def)
  with ex i d k show ?thesis by simp
qed

subsection \<open>C3: the states of a match\<close>

text \<open>
  What one \<open>Update\<close> does to \<open>MatchState\<close> and \<open>matchStartTime\<close>, in every state: the
  state moves by the row of the table, and the start time is taken in \<open>START_MATCH\<close>
  only. So a run of ticks from \<open>START_MATCH\<close> goes through the rows one tick at a time.
\<close>

lemmas duration_defs =
  autoDurationSec_def pauseDurationSec_def teleopDurationSec_def endgameTimeLeftSec_def

lemma Update_fields:
  "MatchState (fst (Update col t (arena, w))) =
     MatchState (fst (Update_switch t (MatchTimeSec (now_matchTime t) arena) arena))"
  "matchStartTime (fst (Update col t (arena, w))) =
     matchStartTime (fst (Update_switch t (MatchTimeSec (now_matchTime t) arena) arena))"
  by (auto simp: Update_def Update_switch_def MatchTimeSec_def Let_def sendDsPacket_fields
      split: prod.splits)

lemma Update_step:
  "MatchState (fst (Update col t (arena, w))) =
     spec_step (MatchState arena) (Seconds (Since (now_matchTime t) (matchStartTime arena)))"
  "matchStartTime (fst (Update col t (arena, w))) =
     (if MatchState arena = START_MATCH then now_start t else matchStartTime arena)"
  by (auto simp: Update_fields Update_switch_def MatchTimeSec_def spec_step_def
      match_state_defs duration_defs)

lemma spec_step_not_START_MATCH:
  "s \<noteq> START_MATCH \<Longrightarrow> spec_step s t \<noteq> START_MATCH"
  by (auto simp: spec_step_def match_state_defs)

lemma Run_ticks_states:
  assumes "MatchState arena \<noteq> START_MATCH" and "matchStartTime arena = start"
  shows "map (MatchState \<circ> fst) (Run_ticks col ts (arena, w)) =
    spec_run (MatchState arena) (map (\<lambda>t. Seconds (Since (now_matchTime t) start)) ts)"
  using assms
proof (induction ts arbitrary: arena w)
  case Nil
  then show ?case by simp
next
  case (Cons t ts)
  obtain arena' w' where u: "Update col t (arena, w) = (arena', w')"
    by (cases "Update col t (arena, w)")
  from Update_step [of col t arena w] u Cons.prems
  have s: "MatchState arena' = spec_step (MatchState arena) (Seconds (Since (now_matchTime t) start))"
    and m: "matchStartTime arena' = start"
    by simp_all
  from s Cons.prems(1) have n: "MatchState arena' \<noteq> START_MATCH"
    by (simp add: spec_step_not_START_MATCH)
  from Cons.IH [OF n m, of w'] u s show ?case
    by (simp add: Let_def)
qed

lemma Run_ticks_from_START_MATCH:
  assumes "MatchState arena = START_MATCH"
  shows "map (MatchState \<circ> fst) (Run_ticks col (t0 # ts) (arena, w)) =
    AUTO_PERIOD #
    spec_run AUTO_PERIOD (map (\<lambda>t. Seconds (Since (now_matchTime t) (now_start t0))) ts)"
proof -
  obtain arena' w' where u: "Update col t0 (arena, w) = (arena', w')"
    by (cases "Update col t0 (arena, w)")
  from Update_step [of col t0 arena w] u assms
  have s: "MatchState arena' = AUTO_PERIOD" and m: "matchStartTime arena' = now_start t0"
    by (simp_all add: spec_step_def)
  from s have n: "MatchState arena' \<noteq> START_MATCH"
    by (simp add: match_state_defs)
  from Run_ticks_states [OF n m, of col ts w'] u s show ?thesis
    by (simp add: Let_def)
qed

lemma spec_run_paced:
  "paced e0 es \<Longrightarrow> spec_run (spec_period e0) es = map spec_period es"
proof (induction es arbitrary: e0)
  case Nil
  show ?case by simp
next
  case (Cons e es)
  then have "spec_step (spec_period e0) e = spec_period e"
    by (auto simp: spec_step_def spec_period_def match_state_defs split: if_splits)
  with Cons show ?case by simp
qed

text \<open>
  C3 as stated fails when a tick is late. A match starts, a tick comes at 5 seconds
  and the next one at 200 seconds: the elapsed time has then reached 10, 11, 121 and
  151 seconds, and that tick enters \<open>PAUSE_PERIOD\<close> only. The three ticks after it
  enter \<open>TELEOP_PERIOD\<close>, \<open>ENDGAME_PERIOD\<close> and \<open>POST_MATCH\<close>, one each.
\<close>

theorem Update_late_tick_counterexample:
  "StartMatch six_stations (conns zero_world) bypassed_arena =
     (None, bypassed_arena\<lparr>MatchState := START_MATCH\<rparr>) \<and>
   map (\<lambda>t. Seconds (Since (now_matchTime t) (now_start (tick_at 1000))))
     [tick_at 5000001000, tick_at 200000001000, tick_at 201000001000, tick_at 202000001000,
      tick_at 203000001000]
     = [5, 200, 201, 202, 203] \<and>
   map (MatchState \<circ> fst)
     (Run_ticks example_collab
        [tick_at 1000, tick_at 5000001000, tick_at 200000001000, tick_at 201000001000,
         tick_at 202000001000, tick_at 203000001000]
        (bypassed_arena\<lparr>MatchState := START_MATCH\<rparr>, zero_world)) =
     [AUTO_PERIOD, AUTO_PERIOD, PAUSE_PERIOD, TELEOP_PERIOD, ENDGAME_PERIOD, POST_MATCH]"
proof -
  let ?el = "\<lambda>t. Seconds (Since (now_matchTime t) (now_start (tick_at 1000)))"
  let ?ts = "[tick_at 5000001000, tick_at 200000001000, tick_at 201000001000,
    tick_at 202000001000, tick_at 203000001000]"
  have el: "map ?el ?ts = [5, 200, 201, 202, 203]"
    by (simp add: tick_at_def Since_def Seconds_def)
  have sr: "spec_run AUTO_PERIOD [5, 200, 201, 202, 203] =
      [AUTO_PERIOD, PAUSE_PERIOD, TELEOP_PERIOD, ENDGAME_PERIOD, POST_MATCH]"
    by (simp add: spec_step_def match_state_defs)
  have "MatchState (bypassed_arena\<lparr>MatchState := START_MATCH\<rparr>) = START_MATCH"
    by simp
  note run = Run_ticks_from_START_MATCH [OF this, of example_collab "tick_at 1000" ?ts zero_world]
  note r = run [unfolded el sr]
  show ?thesis
    by (intro conjI StartMatch_bypassed el r)
qed

text \<open>
  C3, amended. After a \<open>StartMatch\<close> that returns no error the state is \<open>START_MATCH\<close>.
  The first \<open>Update\<close> gives \<open>AUTO_PERIOD\<close> and takes the start time. Every later
  \<open>Update\<close> makes at most one transition, by the elapsed time it reads:
  \<open>AUTO_PERIOD\<close> to \<open>PAUSE_PERIOD\<close> when it is at least 10 seconds, \<open>PAUSE_PERIOD\<close> to
  \<open>TELEOP_PERIOD\<close> when at least 11, \<open>TELEOP_PERIOD\<close> to \<open>ENDGAME_PERIOD\<close> when at least
  121, \<open>ENDGAME_PERIOD\<close> to \<open>POST_MATCH\<close> when at least 151; otherwise the state stays.
  When the ticks are paced (the elapsed times do not decrease and no tick is a whole
  period late), the state after every tick is the one the timetable gives for its
  elapsed time, so each state is entered at the first tick whose elapsed time has
  reached its threshold.
\<close>

theorem Update_follows_timetable:
  assumes start: "StartMatch ord h arena = (None, arena1)"
  shows "MatchState arena1 = START_MATCH \<and>
    map (MatchState \<circ> fst) (Run_ticks col (t0 # ts) (arena1, w)) =
      AUTO_PERIOD #
      spec_run AUTO_PERIOD (map (\<lambda>t. Seconds (Since (now_matchTime t) (now_start t0))) ts) \<and>
    (paced 0 (map (\<lambda>t. Seconds (Since (now_matchTime t) (now_start t0))) ts) \<longrightarrow>
      map (MatchState \<circ> fst) (Run_ticks col (t0 # ts) (arena1, w)) =
        AUTO_PERIOD #
        map spec_period (map (\<lambda>t. Seconds (Since (now_matchTime t) (now_start t0))) ts))"
proof -
  let ?es = "map (\<lambda>t. Seconds (Since (now_matchTime t) (now_start t0))) ts"
  from start have s: "MatchState arena1 = START_MATCH"
    by (auto simp: StartMatch_def Let_def split: if_splits)
  note run = Run_ticks_from_START_MATCH [OF s, of col t0 ts w]
  have "spec_run AUTO_PERIOD ?es = map spec_period ?es" if "paced 0 ?es"
  proof -
    have "spec_period 0 = AUTO_PERIOD"
      by (simp add: spec_period_def)
    with spec_run_paced [OF that] show ?thesis by simp
  qed
  with s run show ?thesis
    by simp
qed

text \<open>
  Ticks at 0, 10, 11, 121 and 151 seconds give the five states in order. With a tick
  one nanosecond before each threshold as well, each of those keeps the state. Ticks
  at 0, 200 and 201 seconds give \<open>AUTO_PERIOD\<close>, \<open>PAUSE_PERIOD\<close>, \<open>TELEOP_PERIOD\<close>.
\<close>

theorem Update_follows_timetable_witness:
  "StartMatch six_stations (conns zero_world) bypassed_arena =
     (None, bypassed_arena\<lparr>MatchState := START_MATCH\<rparr>) \<and>
   map (\<lambda>t. Seconds (Since (now_matchTime t) (now_start (tick_at 1000))))
     [tick_at 10000001000, tick_at 11000001000, tick_at 121000001000, tick_at 151000001000]
     = [10, 11, 121, 151] \<and>
   paced 0 [10, 11, 121, 151] \<and>
   map (MatchState \<circ> fst)
     (Run_ticks example_collab
        [tick_at 1000, tick_at 10000001000, tick_at 11000001000, tick_at 121000001000,
         tick_at 151000001000]
        (bypassed_arena\<lparr>MatchState := START_MATCH\<rparr>, zero_world)) =
     [AUTO_PERIOD, PAUSE_PERIOD, TELEOP_PERIOD, ENDGAME_PERIOD, POST_MATCH] \<and>
   map (\<lambda>t. Seconds (Since (now_matchTime t) (now_start (tick_at 1000))))
     [tick_at 10000000999, tick_at 10000001000, tick_at 11000000999, tick_at 11000001000,
      tick_at 121000000999, tick_at 121000001000, tick_at 151000000999, tick_at 151000001000]
     = [9.999999999, 10, 10.999999999, 11, 120.999999999, 121, 150.999999999, 151] \<and>
   paced 0 [9.999999999, 10, 10.999999999, 11, 120.999999999, 121, 150.999999999, 151] \<and>
   map (MatchState \<circ> fst)
     (Run_ticks example_collab
        [tick_at 1000, tick_at 10000000999, tick_at 10000001000, tick_at 11000000999,
         tick_at 11000001000, tick_at 121000000999, tick_at 121000001000,
         tick_at 151000000999, tick_at 151000001000]
        (bypassed_arena\<lparr>MatchState := START_MATCH\<rparr>, zero_world)) =
     [AUTO_PERIOD, AUTO_PERIOD, PAUSE_PERIOD, PAUSE_PERIOD, TELEOP_PERIOD, TELEOP_PERIOD,
      ENDGAME_PERIOD, ENDGAME_PERIOD, POST_MATCH] \<and>
   map (\<lambda>t. Seconds (Since (now_matchTime t) (now_start (tick_at 1000))))
     [tick_at 200000001000, tick_at 201000001000] = [200, 201] \<and>
   map (MatchState \<circ> fst)
     (Run_ticks example_collab [tick_at 1000, tick_at 200000001000, tick_at 201000001000]
        (bypassed_arena\<lparr>MatchState := START_MATCH\<rparr>, zero_world)) =
     [AUTO_PERIOD, PAUSE_PERIOD, TELEOP_PERIOD]"
proof -
  let ?el = "\<lambda>t. Seconds (Since (now_matchTime t) (now_start (tick_at 1000)))"
  let ?ts = "[tick_at 10000001000, tick_at 11000001000, tick_at 121000001000,
    tick_at 151000001000]"
  let ?us = "[tick_at 10000000999, tick_at 10000001000, tick_at 11000000999,
    tick_at 11000001000, tick_at 121000000999, tick_at 121000001000, tick_at 151000000999,
    tick_at 151000001000]"
  let ?vs = "[tick_at 200000001000, tick_at 201000001000]"
  let ?a = "bypassed_arena\<lparr>MatchState := START_MATCH\<rparr>"
  have el: "map ?el ?ts = [10, 11, 121, 151]"
    by (simp add: tick_at_def Since_def Seconds_def)
  have p: "paced 0 [10, 11, 121, 151]"
    by (simp add: spec_period_def match_state_defs)
  have sp: "map spec_period [10, 11, 121, 151] =
      [PAUSE_PERIOD, TELEOP_PERIOD, ENDGAME_PERIOD, POST_MATCH]"
    by (simp add: spec_period_def)
  have p': "paced 0 (map ?el ?ts)"
    unfolding el by (rule p)
  have run: "map (MatchState \<circ> fst) (Run_ticks example_collab (tick_at 1000 # ?ts) (?a, zero_world))
      = AUTO_PERIOD # map spec_period (map ?el ?ts)"
    by (rule Update_follows_timetable [OF StartMatch_bypassed, THEN conjunct2, THEN conjunct2,
          THEN mp, OF p'])
  have el2: "map ?el ?us =
      [9.999999999, 10, 10.999999999, 11, 120.999999999, 121, 150.999999999, 151]"
    by (simp add: tick_at_def Since_def Seconds_def)
  have p2: "paced 0 [9.999999999, 10, 10.999999999, 11, 120.999999999, 121, 150.999999999, 151]"
    by (simp add: spec_period_def match_state_defs)
  have sp2: "map spec_period
      [9.999999999, 10, 10.999999999, 11, 120.999999999, 121, 150.999999999, 151] =
      [AUTO_PERIOD, PAUSE_PERIOD, PAUSE_PERIOD, TELEOP_PERIOD, TELEOP_PERIOD,
       ENDGAME_PERIOD, ENDGAME_PERIOD, POST_MATCH]"
    by (simp add: spec_period_def)
  have p2': "paced 0 (map ?el ?us)"
    unfolding el2 by (rule p2)
  have run2: "map (MatchState \<circ> fst) (Run_ticks example_collab (tick_at 1000 # ?us) (?a, zero_world))
      = AUTO_PERIOD # map spec_period (map ?el ?us)"
    by (rule Update_follows_timetable [OF StartMatch_bypassed, THEN conjunct2, THEN conjunct2,
          THEN mp, OF p2'])
  have el3: "map ?el ?vs = [200, 201]"
    by (simp add: tick_at_def Since_def Seconds_def)
  have sr3: "spec_run AUTO_PERIOD [200, 201] = [PAUSE_PERIOD, TELEOP_PERIOD]"
    by (simp add: spec_step_def match_state_defs)
  have run3: "map (MatchState \<circ> fst) (Run_ticks example_collab (tick_at 1000 # ?vs) (?a, zero_world))
      = AUTO_PERIOD # spec_run AUTO_PERIOD (map ?el ?vs)"
    by (rule Update_follows_timetable [OF StartMatch_bypassed, THEN conjunct2, THEN conjunct1])
  note r1 = run [unfolded el sp] and r2 = run2 [unfolded el2 sp2] and r3 = run3 [unfolded el3 sr3]
  show ?thesis
    by (intro conjI StartMatch_bypassed el p r1 el2 p2 r2 el3 r3)
qed

end
